theory Spec2Isabelle
  imports Main "HOL-Library.Word" "HOL-Library.Log_Nat"
begin

section \<open>Data model\<close>

text \<open>
  Modelled from the spec: the struct declarations of package \<open>db\<close> (\<open>Tickets\<close>,
  \<open>Workspace\<close>, \<open>WorkspaceFeatures\<close>, \<open>FeaturePhase\<close>, \<open>NewBounty\<close>, \<open>FeatureStory\<close>, the story
  webhook payload, \<open>ChatMessage\<close>, \<open>PaymentDateRange\<close>) are in a file that is not among
  the sources. The records below carry the fields that the specification's data model
  lists and that the code and its tests read or write. Field selectors are prefixed with the
  struct they belong to (\<open>T_\<close> Tickets, \<open>B_\<close> NewBounty, \<open>F_\<close> WorkspaceFeatures,
  \<open>W_\<close> Workspace, \<open>S_\<close> FeatureStory, \<open>US_\<close> FeatureStories, \<open>FO_\<close> FeatureOutput,
  \<open>M_\<close> ChatMessage, \<open>PD_\<close> PaymentDateRange, \<open>PH_\<close> FeaturePhase), the rest of the name is
  the Go field.

  A \<open>uuid.UUID\<close> is represented by its canonical text, which is also what the
  \<open>uuid\<close> column holds; \<open>uuid.Nil\<close> is the all-zero UUID. A \<open>time.Time\<close> is
  represented by its Unix seconds; the zero \<open>time.Time\<close> (1 January of year 1, UTC)
  has Unix seconds \<open>-62135596800\<close>. Go's \<open>uint\<close> and \<open>int64\<close> are 64-bit words.
\<close>

type_synonym uuid = string
type_synonym time = int
type_synonym error = string
type_synonym TicketStatus = string

definition uuid_Nil :: uuid where
  "uuid_Nil = ''00000000-0000-0000-0000-000000000000''"

definition time_zero :: time where
  "time_zero = - 62135596800"

text \<open>
  Modelled from the spec: the seven \<open>TicketStatus\<close> constants are declared in the
  missing struct file; the specification enumerates them as draft, ready, in-progress,
  test, deploy, pay, completed. Every statement below refers to them by name only.
\<close>

definition DraftTicket :: TicketStatus where "DraftTicket = ''draft''"
definition ReadyTicket :: TicketStatus where "ReadyTicket = ''ready''"
definition InProgressTicket :: TicketStatus where "InProgressTicket = ''in-progress''"
definition TestTicket :: TicketStatus where "TestTicket = ''test''"
definition DeployTicket :: TicketStatus where "DeployTicket = ''deploy''"
definition PayTicket :: TicketStatus where "PayTicket = ''pay''"
definition CompletedTicket :: TicketStatus where "CompletedTicket = ''completed''"

record Tickets =
  T_UUID :: uuid
  T_TicketGroup :: "uuid option"
  T_FeatureUUID :: string
  T_PhaseUUID :: string
  T_Name :: string
  T_Sequence :: int
  T_Description :: string
  T_Status :: TicketStatus
  T_Version :: int
  T_Author :: "string option"
  T_AuthorID :: "string option"
  T_CreatedAt :: time
  T_UpdatedAt :: time

record Workspace =
  W_Uuid :: string
  W_Name :: string
  W_OwnerPubKey :: string
  W_Description :: string
  W_Github :: string
  W_Website :: string
  W_Deleted :: bool

record WorkspaceFeatures =
  F_ID :: nat
  F_Uuid :: string
  F_WorkspaceUuid :: string
  F_Name :: string
  F_Url :: string
  F_Priority :: int
  F_CreatedBy :: string
  F_UpdatedBy :: string

record FeaturePhase =
  PH_Uuid :: string
  PH_FeatureUuid :: string
  PH_Name :: string
  PH_Priority :: int
  PH_PhasePurpose :: string
  PH_PhaseOutcome :: string
  PH_PhaseScope :: string
  PH_CreatedBy :: string
  PH_UpdatedBy :: string

record NewBounty =
  B_ID :: nat
  B_OwnerID :: string
  B_Paid :: bool
  B_Show :: bool
  B_Type :: string
  B_WantedType :: string
  B_Assignee :: string
  B_Title :: string
  B_Description :: string
  B_Price :: "64 word"
  B_Created :: int
  B_Updated :: "time option"
  B_CodingLanguages :: "string list"
  B_WorkspaceUuid :: string
  B_PhaseUuid :: string
  B_FeatureUuid :: string

record FeatureStory =
  S_ID :: nat
  S_Uuid :: string
  S_FeatureUuid :: string
  S_Description :: string
  S_Priority :: int
  S_Created :: "time option"
  S_Updated :: "time option"
  S_CreatedBy :: string
  S_UpdatedBy :: string

text \<open>The webhook payload of the bulk story ingestion: \<open>FeatureStoriesReponse\<close> is a
  struct with the single field \<open>Output\<close>, a \<open>FeatureOutput\<close>.\<close>

record FeatureStories =
  US_UserStory :: string
  US_Rationale :: string
  US_Order :: int

record FeatureOutput =
  FO_FeatureContext :: string
  FO_FeatureUuid :: string
  FO_Stories :: "FeatureStories list"

record ChatMessage =
  M_ID :: string
  M_ChatID :: string
  M_Message :: string
  M_Role :: string
  M_Timestamp :: time
  M_Status :: string
  M_Source :: string

text \<open>The bounds of a \<open>PaymentDateRange\<close> are texts that the queries compare with the
  integer column \<open>created\<close>; they are represented by the integers they denote.\<close>

record PaymentDateRange =
  PD_StartDate :: int
  PD_EndDate :: int
  PD_PaymentType :: string

text \<open>The Go zero values \<open>Tickets{}\<close>, \<open>Workspace{}\<close>, \<open>WorkspaceFeatures{}\<close>.\<close>

definition Tickets_zero :: Tickets where
  "Tickets_zero = \<lparr>T_UUID = uuid_Nil, T_TicketGroup = None, T_FeatureUUID = [],
     T_PhaseUUID = [], T_Name = [], T_Sequence = 0, T_Description = [], T_Status = [],
     T_Version = 0, T_Author = None, T_AuthorID = None, T_CreatedAt = time_zero,
     T_UpdatedAt = time_zero\<rparr>"

definition Workspace_zero :: Workspace where
  "Workspace_zero = \<lparr>W_Uuid = [], W_Name = [], W_OwnerPubKey = [], W_Description = [],
     W_Github = [], W_Website = [], W_Deleted = False\<rparr>"

definition WorkspaceFeatures_zero :: WorkspaceFeatures where
  "WorkspaceFeatures_zero = \<lparr>F_ID = 0, F_Uuid = [], F_WorkspaceUuid = [], F_Name = [],
     F_Url = [], F_Priority = 0, F_CreatedBy = [], F_UpdatedBy = []\<rparr>"

section \<open>The relational store\<close>

text \<open>
  The store behind the ORM handle \<open>db.db\<close> is a record of tables, each a list of rows in
  insertion order. \<open>db_fault\<close> is the condition of the connection: when it is
  \<open>Some msg\<close> every statement fails with \<open>msg\<close> and changes nothing, which is what the
  \<open>result.Error \<noteq> nil\<close> branches of the code handle. \<open>feature_seq\<close>, \<open>story_seq\<close>
  and \<open>bounty_seq\<close> are the sequences that number the rows of their tables from 1.
\<close>

record database =
  db_fault :: "string option"
  workspaces :: "Workspace list"
  features :: "WorkspaceFeatures list"
  feature_seq :: nat
  feature_phases :: "FeaturePhase list"
  stories :: "FeatureStory list"
  story_seq :: nat
  tickets :: "Tickets list"
  bounties :: "NewBounty list"
  bounty_seq :: nat
  chat_messages :: "ChatMessage list"

datatype gorm_error = ErrRecordNotFound | ErrOther string

fun gorm_Error :: "gorm_error \<Rightarrow> error" where
  "gorm_Error ErrRecordNotFound = ''record not found''"
| "gorm_Error (ErrOther msg) = msg"

text \<open>\<open>db.db.Where("uuid = ?", u).First(&t)\<close> on table \<open>tickets\<close>, whose key is \<open>uuid\<close>.\<close>

definition tickets_First :: "database \<Rightarrow> uuid \<Rightarrow> gorm_error + Tickets" where
  "tickets_First db u =
     (case db_fault db of
        Some msg \<Rightarrow> Inl (ErrOther msg)
      | None \<Rightarrow>
          (case find (\<lambda>t. T_UUID t = u) (tickets db) of
             None \<Rightarrow> Inl ErrRecordNotFound
           | Some t \<Rightarrow> Inr t))"

text \<open>\<open>db.db.Create(&ticket)\<close>: the error, if any, and the store afterwards.\<close>

definition tickets_Create :: "database \<Rightarrow> Tickets \<Rightarrow> error option \<times> database" where
  "tickets_Create db t =
     (case db_fault db of
        Some msg \<Rightarrow> (Some msg, db)
      | None \<Rightarrow> (None, db\<lparr>tickets := tickets db @ [t]\<rparr>))"

text \<open>
  \<open>Updates\<close> with a struct argument writes the fields of the argument that are not the
  zero value of their type and leaves the other columns of the row as they are.
\<close>

definition Tickets_Updates :: "Tickets \<Rightarrow> Tickets \<Rightarrow> Tickets" where
  "Tickets_Updates row v =
     \<lparr>T_UUID = (if T_UUID v = uuid_Nil then T_UUID row else T_UUID v),
      T_TicketGroup = (if T_TicketGroup v = None then T_TicketGroup row else T_TicketGroup v),
      T_FeatureUUID = (if T_FeatureUUID v = [] then T_FeatureUUID row else T_FeatureUUID v),
      T_PhaseUUID = (if T_PhaseUUID v = [] then T_PhaseUUID row else T_PhaseUUID v),
      T_Name = (if T_Name v = [] then T_Name row else T_Name v),
      T_Sequence = (if T_Sequence v = 0 then T_Sequence row else T_Sequence v),
      T_Description = (if T_Description v = [] then T_Description row else T_Description v),
      T_Status = (if T_Status v = [] then T_Status row else T_Status v),
      T_Version = (if T_Version v = 0 then T_Version row else T_Version v),
      T_Author = (if T_Author v = None then T_Author row else T_Author v),
      T_AuthorID = (if T_AuthorID v = None then T_AuthorID row else T_AuthorID v),
      T_CreatedAt = (if T_CreatedAt v = time_zero then T_CreatedAt row else T_CreatedAt v),
      T_UpdatedAt = (if T_UpdatedAt v = time_zero then T_UpdatedAt row else T_UpdatedAt v)\<rparr>"

text \<open>\<open>db.db.Model(&existingTicket).Updates(ticket)\<close>: the rows with the key of
  \<open>existingTicket\<close> are updated.\<close>

definition tickets_Updates :: "database \<Rightarrow> Tickets \<Rightarrow> Tickets \<Rightarrow> error option \<times> database" where
  "tickets_Updates db existingTicket v =
     (case db_fault db of
        Some msg \<Rightarrow> (Some msg, db)
      | None \<Rightarrow>
          (None, db\<lparr>tickets :=
             map (\<lambda>row. if T_UUID row = T_UUID existingTicket then Tickets_Updates row v else row)
               (tickets db)\<rparr>))"

section \<open>Tickets (db/tickets.go)\<close>

definition IsValidTicketStatus :: "TicketStatus \<Rightarrow> bool" where
  "IsValidTicketStatus status =
     (if status = DraftTicket \<or> status = ReadyTicket \<or> status = InProgressTicket
         \<or> status = TestTicket \<or> status = DeployTicket \<or> status = PayTicket
         \<or> status = CompletedTicket
      then True else False)"

text \<open>
  \<open>CreateOrEditTicket\<close> takes the clock reading \<open>now\<close> of \<open>time.Now()\<close> and the store,
  and returns the Go result pair as a sum (\<open>Inl\<close> the error) with the store afterwards.
\<close>

definition CreateOrEditTicket ::
  "time \<Rightarrow> database \<Rightarrow> Tickets \<Rightarrow> (error + Tickets) \<times> database" where
  "CreateOrEditTicket now db ticket0 =
     (if T_UUID ticket0 = uuid_Nil then (Inl ''ticket UUID is required'', db)
      else if T_Status ticket0 \<noteq> [] \<and> \<not> IsValidTicketStatus (T_Status ticket0)
        then (Inl ''invalid ticket status'', db)
      else
        (let result = tickets_First db (T_UUID ticket0);
             ticket = ticket0\<lparr>T_UpdatedAt := now\<rparr>
         in case result of
              Inl ErrRecordNotFound \<Rightarrow>
                (let ticket1 = ticket\<lparr>T_CreatedAt := now\<rparr>;
                     ticket2 = (if T_Status ticket1 = [] then ticket1\<lparr>T_Status := DraftTicket\<rparr>
                                else ticket1)
                 in case tickets_Create db ticket2 of
                      (Some err, db') \<Rightarrow> (Inl (''failed to create ticket: '' @ err), db')
                    | (None, db') \<Rightarrow> (Inr ticket2, db'))
            | Inl (ErrOther msg) \<Rightarrow> (Inl (''database error: '' @ msg), db)
            | Inr existingTicket \<Rightarrow>
                (case tickets_Updates db existingTicket ticket of
                   (Some err, db') \<Rightarrow> (Inl (''failed to update ticket: '' @ err), db')
                 | (None, db') \<Rightarrow>
                     (case tickets_First db' (T_UUID ticket) of
                        Inl err \<Rightarrow>
                          (Inl (''failed to fetch updated ticket: '' @ gorm_Error err), db')
                      | Inr updatedTicket \<Rightarrow> (Inr updatedTicket, db')))))"

text \<open>\<open>UpdateTicket\<close> is the same operation on a ticket passed by value.\<close>

definition UpdateTicket ::
  "time \<Rightarrow> database \<Rightarrow> Tickets \<Rightarrow> (error + Tickets) \<times> database" where
  "UpdateTicket now db ticket0 =
     (if T_UUID ticket0 = uuid_Nil then (Inl ''ticket UUID is required'', db)
      else if T_Status ticket0 \<noteq> [] \<and> \<not> IsValidTicketStatus (T_Status ticket0)
        then (Inl ''invalid ticket status'', db)
      else
        (let result = tickets_First db (T_UUID ticket0);
             ticket = ticket0\<lparr>T_UpdatedAt := now\<rparr>
         in case result of
              Inl err \<Rightarrow>
                (if err = ErrRecordNotFound then
                   (let ticket1 = ticket\<lparr>T_CreatedAt := now\<rparr>;
                        ticket2 = (if T_Status ticket1 = []
                                   then ticket1\<lparr>T_Status := DraftTicket\<rparr> else ticket1)
                    in case tickets_Create db ticket2 of
                         (Some e, db') \<Rightarrow> (Inl (''failed to create ticket: '' @ e), db')
                       | (None, db') \<Rightarrow> (Inr ticket2, db'))
                 else (Inl (''database error: '' @ gorm_Error err), db))
            | Inr existingTicket \<Rightarrow>
                (case tickets_Updates db existingTicket ticket of
                   (Some e, db') \<Rightarrow> (Inl (''failed to update ticket: '' @ e), db')
                 | (None, db') \<Rightarrow>
                     (case tickets_First db' (T_UUID ticket) of
                        Inl e \<Rightarrow>
                          (Inl (''failed to fetch updated ticket: '' @ gorm_Error e), db')
                      | Inr updatedTicket \<Rightarrow> (Inr updatedTicket, db')))))"

section \<open>Ticket to bounty (db/tickets.go)\<close>

text \<open>
  Modelled from the spec: \<open>GetFeatureByUuid\<close> is defined in the feature part of package
  \<open>db\<close>, which is not among the sources. It has no error result: it returns the feature
  row with the given UUID, and the zero \<open>WorkspaceFeatures\<close> when the query yields no row.
\<close>

definition GetFeatureByUuid :: "database \<Rightarrow> string \<Rightarrow> WorkspaceFeatures" where
  "GetFeatureByUuid db u =
     (case db_fault db of
        Some msg \<Rightarrow> WorkspaceFeatures_zero
      | None \<Rightarrow>
          (case find (\<lambda>f. F_Uuid f = u) (features db) of
             None \<Rightarrow> WorkspaceFeatures_zero
           | Some f \<Rightarrow> f))"

text \<open>\<open>db.db.Create(bounty)\<close>: the row gets the next number of the sequence as its
  \<open>ID\<close>, which is also written back into the struct the caller holds.\<close>

definition bounties_Create :: "database \<Rightarrow> NewBounty \<Rightarrow> (error + NewBounty) \<times> database" where
  "bounties_Create db b =
     (case db_fault db of
        Some msg \<Rightarrow> (Inl msg, db)
      | None \<Rightarrow>
          (let b' = b\<lparr>B_ID := Suc (bounty_seq db)\<rparr>
           in (Inr b', db\<lparr>bounties := bounties db @ [b'], bounty_seq := Suc (bounty_seq db)\<rparr>)))"

definition CreateBountyFromTicket ::
  "time \<Rightarrow> database \<Rightarrow> Tickets \<Rightarrow> string \<Rightarrow> (error + NewBounty) \<times> database" where
  "CreateBountyFromTicket now db ticket pubkey =
     (let feature = GetFeatureByUuid db (T_FeatureUUID ticket);
          bounty = \<lparr>B_ID = 0, B_OwnerID = pubkey, B_Paid = False, B_Show = True,
            B_Type = ''freelance_job_request'', B_WantedType = ''Other'', B_Assignee = [],
            B_Title = T_Name ticket, B_Description = T_Description ticket, B_Price = 21,
            B_Created = now, B_Updated = Some now, B_CodingLanguages = [],
            B_WorkspaceUuid = F_WorkspaceUuid feature, B_PhaseUuid = T_PhaseUUID ticket,
            B_FeatureUuid = T_FeatureUUID ticket\<rparr>
      in case bounties_Create db bounty of
           (Inl err, db') \<Rightarrow> (Inl (''failed to create bounty: '' @ err), db')
         | (Inr created, db') \<Rightarrow> (Inr created, db'))"

text \<open>
  \<open>GetTicket\<close> looks a ticket up by the text of its UUID. \<open>Find\<close> into a single struct
  reads the first row of the result, if any, and counts it in \<open>RowsAffected\<close>. (A text
  that is not a UUID matches no row here; the database itself refuses it with an error, so
  that \<open>GetTicket\<close> returns an error either way.)
\<close>

definition tickets_Find :: "database \<Rightarrow> string \<Rightarrow> error option \<times> Tickets \<times> nat" where
  "tickets_Find db u =
     (case db_fault db of
        Some msg \<Rightarrow> (Some msg, Tickets_zero, 0)
      | None \<Rightarrow>
          (case find (\<lambda>t. T_UUID t = u) (tickets db) of
             None \<Rightarrow> (None, Tickets_zero, 0)
           | Some t \<Rightarrow> (None, t, 1)))"

definition GetTicket :: "database \<Rightarrow> string \<Rightarrow> error + Tickets" where
  "GetTicket db u =
     (case tickets_Find db u of
        (Some err, ticket, rowsAffected) \<Rightarrow> Inl (''failed to get ticket: '' @ err)
      | (None, ticket, rowsAffected) \<Rightarrow>
          (if rowsAffected = 0 then Inl ''ticket not found'' else Inr ticket))"

section \<open>HTTP responses\<close>

text \<open>
  A handler's effect on the \<open>http.ResponseWriter\<close> is the status code it writes and the
  body it encodes: nothing, a text, or the JSON encoding of a value.
\<close>

datatype 'a body = NoBody | Text string | Json 'a

record 'a response =
  resp_status :: nat
  resp_body :: "'a body"

definition StatusOK :: nat where "StatusOK = 200"
definition StatusCreated :: nat where "StatusCreated = 201"
definition StatusBadRequest :: nat where "StatusBadRequest = 400"
definition StatusUnauthorized :: nat where "StatusUnauthorized = 401"
definition StatusNotFound :: nat where "StatusNotFound = 404"
definition StatusNotAcceptable :: nat where "StatusNotAcceptable = 406"
definition StatusInternalServerError :: nat where "StatusInternalServerError = 500"

section \<open>Ticket to bounty: the handler\<close>

record CreateBountyResponse =
  CBR_Success :: bool
  CBR_BountyID :: nat
  CBR_Message :: string

text \<open>
  Modelled from the spec: the handler \<open>TicketToBounty\<close> of the ticket handlers is not among
  the sources (only its tests are). The specification says that it requires an
  authenticated caller and a non-empty ticket UUID, fails not-found if the ticket does not
  exist, and on success derives and persists a new bounty from the ticket and returns the
  new bounty's identifier with status created; the tests add the statuses 401 for a
  missing caller identity and 400 for a missing ticket UUID, and the success message.
  It is built on \<open>GetTicket\<close> and \<open>CreateBountyFromTicket\<close> of db/tickets.go.
\<close>

definition TicketToBounty ::
  "time \<Rightarrow> database \<Rightarrow> string \<Rightarrow> string \<Rightarrow> CreateBountyResponse response \<times> database" where
  "TicketToBounty now db pubKeyFromAuth ticketUUID =
     (if pubKeyFromAuth = [] then
        (\<lparr>resp_status = StatusUnauthorized, resp_body = NoBody\<rparr>, db)
      else if ticketUUID = [] then
        (\<lparr>resp_status = StatusBadRequest, resp_body = NoBody\<rparr>, db)
      else
        (case GetTicket db ticketUUID of
           Inl err \<Rightarrow> (\<lparr>resp_status = StatusNotFound, resp_body = NoBody\<rparr>, db)
         | Inr ticket \<Rightarrow>
             (case CreateBountyFromTicket now db ticket pubKeyFromAuth of
                (Inl err, db') \<Rightarrow>
                  (\<lparr>resp_status = StatusInternalServerError, resp_body = NoBody\<rparr>, db')
              | (Inr bounty, db') \<Rightarrow>
                  (\<lparr>resp_status = StatusCreated,
                    resp_body = Json \<lparr>CBR_Success = True, CBR_BountyID = B_ID bounty,
                      CBR_Message = ''Bounty created successfully''\<rparr>\<rparr>, db'))))"

section \<open>Feature handlers (handlers/features.go)\<close>

text \<open>
  Modelled from the spec: \<open>GetWorkspaceByUuid\<close>, \<open>CreateOrEditFeature\<close>,
  \<open>CreateOrEditFeatureStory\<close> and \<open>GetBountiesByFeatureAndPhaseUuid\<close> of package \<open>db\<close> are
  not among the sources. Following the specification, a workspace lookup yields the row
  with the UUID or the zero \<open>Workspace\<close>; features and stories are created by upsert on
  their UUID.

  The bounty query lists the bounties of a phase of a feature. A bounty is linked to its
  phase by \<open>PhaseUuid\<close>, and the phase, a row of the phases with its own \<open>FeatureUuid\<close>,
  belongs to exactly one feature: the bounties of the pair are those whose phase is the
  phase asked for, that phase being a phase of the feature asked for. The bounty's own
  \<open>FeatureUuid\<close> plays no part; the handler test lists a bounty that names only its phase
  under the phase's feature. The query reports the selection of no row as an error, for
  an empty UUID as for a pair without matching bounties. The filters of the request are
  the predicate \<open>matches\<close> on bounty rows; the order of the rows and the page window, which
  select among the rows found, are not modelled.
\<close>

definition GetWorkspaceByUuid :: "database \<Rightarrow> string \<Rightarrow> Workspace" where
  "GetWorkspaceByUuid db u =
     (case db_fault db of
        Some msg \<Rightarrow> Workspace_zero
      | None \<Rightarrow>
          (case find (\<lambda>w. W_Uuid w = u) (workspaces db) of
             None \<Rightarrow> Workspace_zero
           | Some w \<Rightarrow> w))"

definition CreateOrEditFeature ::
  "database \<Rightarrow> WorkspaceFeatures \<Rightarrow> (error + WorkspaceFeatures) \<times> database" where
  "CreateOrEditFeature db m =
     (case db_fault db of
        Some msg \<Rightarrow> (Inl msg, db)
      | None \<Rightarrow>
          (case find (\<lambda>f. F_Uuid f = F_Uuid m) (features db) of
             Some old \<Rightarrow>
               (let row = m\<lparr>F_ID := F_ID old\<rparr>
                in (Inr row,
                    db\<lparr>features := map (\<lambda>f. if F_Uuid f = F_Uuid m then row else f) (features db)\<rparr>))
           | None \<Rightarrow>
               (let row = m\<lparr>F_ID := Suc (feature_seq db)\<rparr>
                in (Inr row,
                    db\<lparr>features := features db @ [row], feature_seq := Suc (feature_seq db)\<rparr>))))"

definition CreateOrEditFeatureStory ::
  "database \<Rightarrow> FeatureStory \<Rightarrow> (error + FeatureStory) \<times> database" where
  "CreateOrEditFeatureStory db m =
     (case db_fault db of
        Some msg \<Rightarrow> (Inl msg, db)
      | None \<Rightarrow>
          (case find (\<lambda>s. S_Uuid s = S_Uuid m) (stories db) of
             Some old \<Rightarrow>
               (let row = m\<lparr>S_ID := S_ID old\<rparr>
                in (Inr row,
                    db\<lparr>stories := map (\<lambda>s. if S_Uuid s = S_Uuid m then row else s) (stories db)\<rparr>))
           | None \<Rightarrow>
               (let row = m\<lparr>S_ID := Suc (story_seq db)\<rparr>
                in (Inr row,
                    db\<lparr>stories := stories db @ [row], story_seq := Suc (story_seq db)\<rparr>))))"

definition database_GetBountiesByFeatureAndPhaseUuid ::
  "database \<Rightarrow> string \<Rightarrow> string \<Rightarrow> (NewBounty \<Rightarrow> bool) \<Rightarrow> error + NewBounty list" where
  "database_GetBountiesByFeatureAndPhaseUuid db featureUuid phaseUuid matches =
     (case db_fault db of
        Some msg \<Rightarrow> Inl msg
      | None \<Rightarrow>
          (let phases = filter (\<lambda>ph. PH_FeatureUuid ph = featureUuid \<and> PH_Uuid ph = phaseUuid)
                          (feature_phases db);
               rows = filter (\<lambda>b. B_PhaseUuid b \<in> set (map PH_Uuid phases) \<and> matches b)
                        (bounties db)
           in if featureUuid = [] \<or> phaseUuid = [] \<or> rows = []
              then Inl ''no bounty found'' else Inr rows))"

text \<open>
  \<open>CreateOrEditFeatures\<close>. The request is the caller identity that the authentication
  layer put into the context (empty when there is none) and the body, \<open>None\<close> when
  \<open>json.Unmarshal\<close> fails and the decoded struct otherwise. \<open>Validate_Struct\<close> is
  \<open>db.Validate.Struct\<close>, the validation by the struct tags of the missing declaration
  (\<open>None\<close> when the struct passes), and \<open>xid\<close> the identifier that \<open>xid.New()\<close> draws.
\<close>

definition CreateOrEditFeatures ::
  "(WorkspaceFeatures \<Rightarrow> error option) \<Rightarrow> string \<Rightarrow> database \<Rightarrow> string
     \<Rightarrow> WorkspaceFeatures option \<Rightarrow> WorkspaceFeatures response \<times> database" where
  "CreateOrEditFeatures Validate_Struct xid db pubKeyFromAuth decoded =
     (if pubKeyFromAuth = [] then
        (\<lparr>resp_status = StatusUnauthorized, resp_body = NoBody\<rparr>, db)
      else
        (case decoded of
           None \<Rightarrow> (\<lparr>resp_status = StatusNotAcceptable, resp_body = NoBody\<rparr>, db)
         | Some features0 \<Rightarrow>
             (let features1 = features0\<lparr>F_CreatedBy := pubKeyFromAuth\<rparr>;
                  features2 = (if F_Uuid features1 = [] then features1\<lparr>F_Uuid := xid\<rparr>
                               else features1\<lparr>F_UpdatedBy := pubKeyFromAuth\<rparr>)
              in case Validate_Struct features2 of
                   Some err \<Rightarrow>
                     (\<lparr>resp_status = StatusBadRequest,
                       resp_body = Text (''Error: did not pass validation test : '' @ err)\<rparr>, db)
                 | None \<Rightarrow>
                     (let workpace = GetWorkspaceByUuid db (F_WorkspaceUuid features2)
                      in if W_Uuid workpace \<noteq> F_WorkspaceUuid features2 then
                           (\<lparr>resp_status = StatusUnauthorized,
                             resp_body = Text ''Workspace does not exists''\<rparr>, db)
                         else
                           (case CreateOrEditFeature db features2 of
                              (Inl err, db') \<Rightarrow>
                                (\<lparr>resp_status = StatusBadRequest, resp_body = NoBody\<rparr>, db')
                            | (Inr p, db') \<Rightarrow>
                                (\<lparr>resp_status = StatusOK, resp_body = Json p\<rparr>, db'))))))"

text \<open>
  The handler \<open>GetBountiesByFeatureAndPhaseUuid\<close>; \<open>generateBountyHandler\<close> is the
  function stored in the handler struct that turns bounties into bounty responses.
\<close>

definition featureHandler_GetBountiesByFeatureAndPhaseUuid ::
  "(NewBounty list \<Rightarrow> 'r) \<Rightarrow> database \<Rightarrow> string \<Rightarrow> string \<Rightarrow> string
     \<Rightarrow> (NewBounty \<Rightarrow> bool) \<Rightarrow> 'r response" where
  "featureHandler_GetBountiesByFeatureAndPhaseUuid generateBountyHandler db pubKeyFromAuth
       featureUuid phaseUuid matches =
     (if pubKeyFromAuth = [] then \<lparr>resp_status = StatusUnauthorized, resp_body = NoBody\<rparr>
      else
        (case database_GetBountiesByFeatureAndPhaseUuid db featureUuid phaseUuid matches of
           Inl err \<Rightarrow> \<lparr>resp_status = StatusNotFound, resp_body = NoBody\<rparr>
         | Inr found \<Rightarrow>
             \<lparr>resp_status = StatusOK, resp_body = Json (generateBountyHandler found)\<rparr>))"

text \<open>
  \<open>GetFeatureStories\<close>, the webhook of the bulk story ingestion. The loop over the stories
  of the payload is \<open>GetFeatureStories_loop\<close>; its counter \<open>n\<close> numbers the iterations,
  \<open>xid n\<close> and \<open>clock n\<close> being what \<open>xid.New()\<close> and \<open>time.Now()\<close> yield in iteration
  \<open>n\<close>. The result of \<open>CreateOrEditFeatureStory\<close> is dropped, as in the code.
\<close>

fun GetFeatureStories_loop ::
  "(nat \<Rightarrow> string) \<Rightarrow> (nat \<Rightarrow> time) \<Rightarrow> string \<Rightarrow> nat \<Rightarrow> FeatureStories list
     \<Rightarrow> database \<Rightarrow> database" where
  "GetFeatureStories_loop xid clock featureUuid n [] db = db"
| "GetFeatureStories_loop xid clock featureUuid n (story # rest) db =
     (let feature = GetFeatureByUuid db featureUuid
      in if F_ID feature = 0 then GetFeatureStories_loop xid clock featureUuid (Suc n) rest db
         else
           (let now = clock n;
                featureStory = \<lparr>S_ID = 0, S_Uuid = xid n, S_FeatureUuid = featureUuid,
                  S_Description = US_UserStory story, S_Priority = 0, S_Created = Some now,
                  S_Updated = Some now, S_CreatedBy = [], S_UpdatedBy = []\<rparr>
            in GetFeatureStories_loop xid clock featureUuid (Suc n) rest
                 (snd (CreateOrEditFeatureStory db featureStory))))"

definition GetFeatureStories ::
  "(nat \<Rightarrow> string) \<Rightarrow> (nat \<Rightarrow> time) \<Rightarrow> database \<Rightarrow> FeatureOutput option
     \<Rightarrow> unit response \<times> database" where
  "GetFeatureStories xid clock db decoded =
     (case decoded of
        None \<Rightarrow> (\<lparr>resp_status = StatusNotAcceptable, resp_body = NoBody\<rparr>, db)
      | Some output \<Rightarrow>
          (\<lparr>resp_status = StatusOK, resp_body = Text ''User stories added successfully''\<rparr>,
           GetFeatureStories_loop xid clock (FO_FeatureUuid output) 0 (FO_Stories output) db))"

text \<open>Modelled from the spec: the stories of a feature, as \<open>GetFeatureStoriesByFeatureUuid\<close>
  of the missing feature part of package \<open>db\<close> lists them.\<close>

definition GetFeatureStoriesByFeatureUuid :: "database \<Rightarrow> string \<Rightarrow> error + FeatureStory list" where
  "GetFeatureStoriesByFeatureUuid db featureUuid =
     (case db_fault db of
        Some msg \<Rightarrow> Inl msg
      | None \<Rightarrow> Inr (filter (\<lambda>s. S_FeatureUuid s = featureUuid) (stories db)))"

section \<open>Metrics (db/metrics.go)\<close>

text \<open>
  The rows a metrics query covers: created within the date range and, when a workspace
  is given, belonging to it. The structs \<open>Bounty\<close> and \<open>NewBounty\<close> that the queries
  name as their model both stand for table \<open>bounty\<close>.
\<close>

definition in_range :: "PaymentDateRange \<Rightarrow> string \<Rightarrow> NewBounty \<Rightarrow> bool" where
  "in_range r workspace b =
     (PD_StartDate r \<le> B_Created b \<and> B_Created b \<le> PD_EndDate r
      \<and> (workspace = [] \<or> B_WorkspaceUuid b = workspace))"

text \<open>
  \<open>Select("SUM(price)").Row().Scan(&sum)\<close> into a \<open>uint\<close> that starts at 0: the sum over
  no rows is NULL and a sum that does not fit 64 bits cannot be converted; in both cases
  \<open>Scan\<close> fails, the error is dropped and \<open>sum\<close> stays 0. \<open>Count(&count)\<close> into an
  \<open>int64\<close> likewise holds the number of rows, which the database reports as a signed
  64-bit integer.
\<close>

definition Scan_sum :: "64 word list \<Rightarrow> 64 word" where
  "Scan_sum prices =
     (let total = sum_list (map unat prices)
      in if prices = [] then 0 else if total < 2 ^ 64 then of_nat total else 0)"

definition Scan_count :: "'a list \<Rightarrow> 64 word" where
  "Scan_count rows = (if length rows < 2 ^ 63 then of_nat (length rows) else 0)"

definition TotalSatsPosted :: "database \<Rightarrow> PaymentDateRange \<Rightarrow> string \<Rightarrow> 64 word" where
  "TotalSatsPosted db r workspace =
     (case db_fault db of
        Some msg \<Rightarrow> 0
      | None \<Rightarrow> Scan_sum (map B_Price (filter (in_range r workspace) (bounties db))))"

definition TotalSatsPaid :: "database \<Rightarrow> PaymentDateRange \<Rightarrow> string \<Rightarrow> 64 word" where
  "TotalSatsPaid db r workspace =
     (case db_fault db of
        Some msg \<Rightarrow> 0
      | None \<Rightarrow>
          Scan_sum (map B_Price (filter (\<lambda>b. B_Paid b = True \<and> in_range r workspace b) (bounties db))))"

definition TotalPaidBounties :: "database \<Rightarrow> PaymentDateRange \<Rightarrow> string \<Rightarrow> 64 word" where
  "TotalPaidBounties db r workspace =
     (case db_fault db of
        Some msg \<Rightarrow> 0
      | None \<Rightarrow> Scan_count (filter (\<lambda>b. B_Paid b = True \<and> in_range r workspace b) (bounties db)))"

definition TotalBountiesPosted :: "database \<Rightarrow> PaymentDateRange \<Rightarrow> string \<Rightarrow> 64 word" where
  "TotalBountiesPosted db r workspace =
     (case db_fault db of
        Some msg \<Rightarrow> 0
      | None \<Rightarrow> Scan_count (filter (in_range r workspace) (bounties db)))"

text \<open>
  Go's integer division panics on a zero divisor; on \<open>uint\<close> it is the quotient of the
  unsigned values, on \<open>int64\<close> the quotient truncated towards zero.
\<close>

datatype panic = DivideByZero

definition uint_div :: "64 word \<Rightarrow> 64 word \<Rightarrow> panic + 64 word" where
  "uint_div a b = (if b = 0 then Inl DivideByZero else Inr (a div b))"

definition int64_div :: "64 word \<Rightarrow> 64 word \<Rightarrow> panic + 64 word" where
  "int64_div a b =
     (if b = 0 then Inl DivideByZero
      else Inr (of_int (sgn (sint a) * sgn (sint b) * (\<bar>sint a\<bar> div \<bar>sint b\<bar>))))"

text \<open>
  The conversions through \<open>float64\<close>. The only floating-point values that occur are
  images of integers, so a \<open>float64\<close> is represented by the integer it equals.
  \<open>float64(v)\<close> is the nearest value with a 53-bit significand, ties going to the even
  significand; \<open>math.Round\<close> leaves an integral value as it is; \<open>uint(f)\<close> is \<open>f\<close> when it
  is in the range of \<open>uint\<close>, and otherwise a value that the Go specification leaves to
  the implementation, here the parameter \<open>impl\<close>.
\<close>

definition float64_of_nat :: "nat \<Rightarrow> nat" where
  "float64_of_nat n =
     (if n < 2 ^ 53 then n
      else (let e = floorlog 2 n - 53; q = n div 2 ^ e; rest = n mod 2 ^ e; half = 2 ^ (e - 1)
            in (if half < rest \<or> (rest = half \<and> odd q) then q + 1 else q) * 2 ^ e))"

definition float64_of_int :: "int \<Rightarrow> int" where
  "float64_of_int i =
     (if i < 0 then - int (float64_of_nat (nat (- i))) else int (float64_of_nat (nat i)))"

definition math_Round :: "int \<Rightarrow> int" where
  "math_Round f = f"

definition uint_of_float64 :: "(int \<Rightarrow> 64 word) \<Rightarrow> int \<Rightarrow> 64 word" where
  "uint_of_float64 impl f = (if 0 \<le> f \<and> f < 2 ^ 64 then of_int f else impl f)"

definition SatsPaidPercentage ::
  "(int \<Rightarrow> 64 word) \<Rightarrow> database \<Rightarrow> PaymentDateRange \<Rightarrow> string \<Rightarrow> panic + 64 word" where
  "SatsPaidPercentage impl db r workspace =
     (let satsPosted = TotalSatsPosted db r workspace;
          satsPaid = TotalSatsPaid db r workspace
      in if satsPaid \<noteq> 0 \<and> satsPosted \<noteq> 0 then
           (case uint_div (satsPaid * 100) satsPosted of
              Inl p \<Rightarrow> Inl p
            | Inr v \<Rightarrow>
                (let paidPercentage = math_Round (float64_of_int (uint v))
                 in Inr (uint_of_float64 impl paidPercentage)))
         else Inr 0)"

definition BountiesPaidPercentage ::
  "(int \<Rightarrow> 64 word) \<Rightarrow> database \<Rightarrow> PaymentDateRange \<Rightarrow> string \<Rightarrow> panic + 64 word" where
  "BountiesPaidPercentage impl db r workspace =
     (let bountiesPosted = TotalBountiesPosted db r workspace;
          bountiesPaid = TotalPaidBounties db r workspace
      in if bountiesPaid \<noteq> 0 \<and> bountiesPosted \<noteq> 0 then
           (case int64_div (bountiesPaid * 100) bountiesPosted of
              Inl p \<Rightarrow> Inl p
            | Inr v \<Rightarrow>
                (let paidPercentage = math_Round (float64_of_int (sint v))
                 in Inr (uint_of_float64 impl paidPercentage)))
         else Inr 0)"

section \<open>Chat: sending a message\<close>

text \<open>
  The body of a \<open>SendMessage\<close> request, the payload for the workflow engine (the nested
  maps \<open>set_var\<close>, \<open>attributes\<close>, \<open>vars\<close> of \<open>WorkflowParams\<close> hold one map, the
  record \<open>vars\<close>), the websocket message and the response body.
\<close>

record SendMessage_request =
  Q_ChatID :: string
  Q_Message :: string
  Q_ContextTags :: "(string \<times> string) list"
  Q_SourceWebsocketID :: string
  Q_WorkspaceUUID :: string

record history_entry =
  HE_role :: string
  HE_content :: string

record vars =
  V_chatId :: string
  V_messageId :: string
  V_message :: string
  V_history :: "history_entry list"
  V_contextTags :: string
  V_sourceWebsocketId :: string
  V_webhook_url :: string

record StakworkChatPayload =
  P_Name :: string
  P_WorkflowID :: int
  P_vars :: vars

record TicketMessage =
  TM_BroadcastType :: string
  TM_SourceSessionID :: string
  TM_Message :: string
  TM_Action :: string
  TM_ChatMessage :: ChatMessage

record ChatResponse =
  CR_Success :: bool
  CR_Message :: string
  CR_Data :: "ChatMessage option"

definition ChatMessage_zero :: ChatMessage where
  "ChatMessage_zero = \<lparr>M_ID = [], M_ChatID = [], M_Message = [], M_Role = [],
     M_Timestamp = time_zero, M_Status = [], M_Source = []\<rparr>"

text \<open>
  Modelled from the spec: \<open>GetChatMessagesForChatID\<close>, \<open>AddChatMessage\<close> and
  \<open>UpdateChatMessage\<close> of package \<open>db\<close> are not among the sources. Messages are
  append-only and belong to a chat: the history of a chat is its messages in the order
  they were stored, a new message is appended, and a status change rewrites the message
  with the same identifier in place.
\<close>

definition GetChatMessagesForChatID :: "database \<Rightarrow> string \<Rightarrow> error + ChatMessage list" where
  "GetChatMessagesForChatID db chatID =
     (case db_fault db of
        Some msg \<Rightarrow> Inl msg
      | None \<Rightarrow> Inr (filter (\<lambda>m. M_ChatID m = chatID) (chat_messages db)))"

definition AddChatMessage :: "database \<Rightarrow> ChatMessage \<Rightarrow> (error + ChatMessage) \<times> database" where
  "AddChatMessage db m =
     (case db_fault db of
        Some msg \<Rightarrow> (Inl msg, db)
      | None \<Rightarrow> (Inr m, db\<lparr>chat_messages := chat_messages db @ [m]\<rparr>))"

definition UpdateChatMessage :: "database \<Rightarrow> ChatMessage \<Rightarrow> (error + ChatMessage) \<times> database" where
  "UpdateChatMessage db m =
     (case db_fault db of
        Some msg \<Rightarrow> (Inl msg, db)
      | None \<Rightarrow>
          (Inr m, db\<lparr>chat_messages :=
             map (\<lambda>x. if M_ID x = M_ID m then m else x) (chat_messages db)\<rparr>))"

text \<open>
  What a handler does beyond its response, in the order in which it does it: writes to
  the message table, the request posted to the workflow engine, and messages handed to
  the websocket pool.
\<close>

datatype effect =
    MessageStored ChatMessage
  | MessageUpdated ChatMessage
  | StakworkRequest StakworkChatPayload
  | WebsocketSent TicketMessage

text \<open>
  The surroundings of the chat handler: the environment variables \<open>SWWFKEY\<close> and
  \<open>HOST\<close>, and the workflow engine behind the HTTP client, which answers a posted payload
  with a transport error or with a status code, a body and, when the body decodes as a
  \<open>StakworkResponse\<close>, the project identifier in it.
\<close>

record http_response =
  HR_StatusCode :: nat
  HR_Body :: string
  HR_ProjectID :: "error + int"

record environment =
  SWWFKEY :: string
  HOST :: string
  httpClient_Do :: "StakworkChatPayload \<Rightarrow> error + http_response"

text \<open>
  \<open>sendToStakwork\<close> returns its Go result and the request it posted, if it got that far.
  Marshalling this payload and building the request for the fixed URL cannot fail, so
  these two error returns have no branch here.
\<close>

definition sendToStakwork ::
  "environment \<Rightarrow> StakworkChatPayload \<Rightarrow> (error + int) \<times> effect list" where
  "sendToStakwork env payload =
     (let apiKey = SWWFKEY env
      in if apiKey = [] then (Inl ''SWWFKEY environment variable not set'', [])
         else
           (case httpClient_Do env payload of
              Inl err \<Rightarrow> (Inl (''error sending request: '' @ err), [StakworkRequest payload])
            | Inr resp \<Rightarrow>
                (if HR_StatusCode resp \<noteq> StatusOK
                 then (Inl (''stakwork API error: '' @ HR_Body resp), [StakworkRequest payload])
                 else
                   (case HR_ProjectID resp of
                      Inl err \<Rightarrow>
                        (Inl (''error decoding response: '' @ err), [StakworkRequest payload])
                    | Inr projectID \<Rightarrow> (Inr projectID, [StakworkRequest payload])))))"

text \<open>The decimal text of an integer, as \<open>fmt.Sprintf("%d", n)\<close> prints it.\<close>

fun decimal :: "nat \<Rightarrow> string" where
  "decimal n =
     (if n < 10 then [char_of (48 + n)] else decimal (n div 10) @ [char_of (48 + n mod 10)])"

declare decimal.simps [simp del]

definition Sprintf_d :: "int \<Rightarrow> string" where
  "Sprintf_d i = (if i < 0 then CHR ''-'' # decimal (nat (- i)) else decimal (nat i))"

text \<open>
  \<open>SendMessage\<close>. The body is \<open>None\<close> when it does not decode. \<open>GetProductBrief\<close> is the
  lookup of the workspace's product brief in package \<open>db\<close>, which is not among the
  sources and on which nothing here depends but its result; \<open>xid\<close> and \<open>now\<close> are what
  \<open>xid.New()\<close> and \<open>time.Now()\<close> yield. The result is the response, the store afterwards
  and the effects in order.
\<close>

definition SendMessage ::
  "environment \<Rightarrow> (database \<Rightarrow> string \<Rightarrow> error + string) \<Rightarrow> string \<Rightarrow> time \<Rightarrow> database
     \<Rightarrow> SendMessage_request option \<Rightarrow> ChatResponse response \<times> database \<times> effect list" where
  "SendMessage env GetProductBrief xid now db decoded =
     (case decoded of
        None \<Rightarrow>
          (\<lparr>resp_status = StatusBadRequest,
            resp_body = Json \<lparr>CR_Success = False, CR_Message = ''Invalid request body'',
              CR_Data = None\<rparr>\<rparr>, db, [])
      | Some request \<Rightarrow>
          (if Q_WorkspaceUUID request = [] then
             (\<lparr>resp_status = StatusBadRequest,
               resp_body = Json \<lparr>CR_Success = False, CR_Message = ''workspaceUUID is required'',
                 CR_Data = None\<rparr>\<rparr>, db, [])
           else
             (case GetProductBrief db (Q_WorkspaceUUID request) of
                Inl err \<Rightarrow>
                  (\<lparr>resp_status = StatusInternalServerError,
                    resp_body = Json \<lparr>CR_Success = False,
                      CR_Message = ''Error retrieving product brief'', CR_Data = None\<rparr>\<rparr>, db, [])
              | Inr context \<Rightarrow>
                  (case GetChatMessagesForChatID db (Q_ChatID request) of
                     Inl err \<Rightarrow>
                       (\<lparr>resp_status = StatusInternalServerError,
                         resp_body = Json \<lparr>CR_Success = False,
                           CR_Message = ''Failed to fetch chat history: '' @ err,
                           CR_Data = None\<rparr>\<rparr>, db, [])
                   | Inr history \<Rightarrow>
                       (let start = (if 20 < length history then length history - 20 else 0);
                            recentHistory = drop start history;
                            messageHistory =
                              map (\<lambda>msg. \<lparr>HE_role = M_Role msg, HE_content = M_Message msg\<rparr>)
                                recentHistory;
                            message = \<lparr>M_ID = xid, M_ChatID = Q_ChatID request,
                              M_Message = Q_Message request, M_Role = ''user'',
                              M_Timestamp = now, M_Status = ''sending'', M_Source = ''user''\<rparr>
                        in case AddChatMessage db message of
                             (Inl err, db1) \<Rightarrow>
                               (\<lparr>resp_status = StatusInternalServerError,
                                 resp_body = Json \<lparr>CR_Success = False,
                                   CR_Message = ''Failed to save message: '' @ err,
                                   CR_Data = None\<rparr>\<rparr>, db1, [])
                           | (Inr createdMessage, db1) \<Rightarrow>
                               (let stakworkPayload =
                                      \<lparr>P_Name = ''Hive Chat Processor'', P_WorkflowID = 38842,
                                       P_vars = \<lparr>V_chatId = Q_ChatID request,
                                         V_messageId = M_ID createdMessage,
                                         V_message = Q_Message request,
                                         V_history = messageHistory,
                                         V_contextTags = context,
                                         V_sourceWebsocketId = Q_SourceWebsocketID request,
                                         V_webhook_url = HOST env @ ''/hivechat/response''\<rparr>\<rparr>
                                in case sendToStakwork env stakworkPayload of
                                     (Inl err, posted) \<Rightarrow>
                                       (let failedMessage = createdMessage\<lparr>M_Status := ''error''\<rparr>;
                                            db2 = snd (UpdateChatMessage db1 failedMessage)
                                        in (\<lparr>resp_status = StatusInternalServerError,
                                             resp_body = Json \<lparr>CR_Success = False,
                                               CR_Message = ''Failed to process message: '' @ err,
                                               CR_Data = None\<rparr>\<rparr>, db2,
                                            MessageStored createdMessage # posted
                                              @ [MessageUpdated failedMessage]))
                                   | (Inr projectID, posted) \<Rightarrow>
                                       (let projectMsg = \<lparr>TM_BroadcastType = ''direct'',
                                              TM_SourceSessionID = Q_SourceWebsocketID request,
                                              TM_Message = ''https://jobs.stakwork.com/admin/projects/''
                                                @ Sprintf_d projectID,
                                              TM_Action = ''swrun'',
                                              TM_ChatMessage = ChatMessage_zero\<rparr>;
                                            wsMessage = \<lparr>TM_BroadcastType = ''direct'',
                                              TM_SourceSessionID = Q_SourceWebsocketID request,
                                              TM_Message = ''Message sent'',
                                              TM_Action = ''process'',
                                              TM_ChatMessage = createdMessage\<rparr>
                                        in (\<lparr>resp_status = StatusOK,
                                             resp_body = Json \<lparr>CR_Success = True,
                                               CR_Message = ''Message sent successfully'',
                                               CR_Data = Some createdMessage\<rparr>\<rparr>, db1,
                                            MessageStored createdMessage # posted
                                              @ [WebsocketSent projectMsg,
                                                 WebsocketSent wsMessage]))))))))"

section \<open>Concrete stores used as test data\<close>

definition empty_db :: database where
  "empty_db = \<lparr>db_fault = None, workspaces = [], features = [], feature_seq = 0,
     feature_phases = [], stories = [], story_seq = 0, tickets = [], bounties = [], bounty_seq = 0,
     chat_messages = []\<rparr>"

definition ticket_A :: Tickets where
  "ticket_A = \<lparr>T_UUID = ''6ba7b810-9dad-11d1-80b4-00c04fd430c8'', T_TicketGroup = None,
     T_FeatureUUID = ''feature-1'', T_PhaseUUID = ''phase-1'', T_Name = ''Test Ticket'',
     T_Sequence = 1, T_Description = ''Test Description'', T_Status = DraftTicket,
     T_Version = 0, T_Author = None, T_AuthorID = None, T_CreatedAt = 1700000000,
     T_UpdatedAt = 1700000000\<rparr>"

definition feature_A :: WorkspaceFeatures where
  "feature_A = \<lparr>F_ID = 1, F_Uuid = ''feature-1'', F_WorkspaceUuid = ''workspace-1'',
     F_Name = ''test-feature'', F_Url = ''https://github.com/test-feature'', F_Priority = 0,
     F_CreatedBy = ''test-pubkey'', F_UpdatedBy = []\<rparr>"

definition workspace_A :: Workspace where
  "workspace_A = \<lparr>W_Uuid = ''workspace-1'', W_Name = ''test-workspace'',
     W_OwnerPubKey = ''test-pubkey'', W_Description = ''test-description'',
     W_Github = ''https://github.com/test'', W_Website = ''https://www.testwebsite.com'',
     W_Deleted = False\<rparr>"

definition phase_A :: FeaturePhase where
  "phase_A = \<lparr>PH_Uuid = ''phase-1'', PH_FeatureUuid = ''feature-1'',
     PH_Name = ''test-feature-phase'', PH_Priority = 0, PH_PhasePurpose = [],
     PH_PhaseOutcome = [], PH_PhaseScope = [], PH_CreatedBy = [], PH_UpdatedBy = []\<rparr>"

definition db_A :: database where
  "db_A = \<lparr>db_fault = None, workspaces = [workspace_A], features = [feature_A],
     feature_seq = 1, feature_phases = [phase_A], stories = [], story_seq = 0,
     tickets = [ticket_A], bounties = [], bounty_seq = 0, chat_messages = []\<rparr>"

text \<open>
  The store of the handler test of the bounty listing: a feature with a phase and one
  bounty that names the phase but no feature, and a second feature with a phase that no
  bounty names.
\<close>

definition bounty_E :: NewBounty where
  "bounty_E = \<lparr>B_ID = 1, B_OwnerID = ''test-pubkey'', B_Paid = False, B_Show = False,
     B_Type = ''coding_task'', B_WantedType = [], B_Assignee = [], B_Title = ''test-bounty'',
     B_Description = ''test-description'', B_Price = 1000, B_Created = 0, B_Updated = None,
     B_CodingLanguages = [], B_WorkspaceUuid = ''workspace-1'', B_PhaseUuid = ''phase-1'',
     B_FeatureUuid = []\<rparr>"

definition db_E :: database where
  "db_E = db_A\<lparr>
     features := [feature_A, feature_A\<lparr>F_ID := 2, F_Uuid := ''empty-feature'',
                                       F_Name := ''empty-feature''\<rparr>],
     feature_seq := 2,
     feature_phases := [phase_A, phase_A\<lparr>PH_Uuid := ''empty-phase'',
                                       PH_FeatureUuid := ''empty-feature'',
                                       PH_Name := ''empty-phase''\<rparr>],
     bounties := [bounty_E], bounty_seq := 1\<rparr>"

text \<open>The payload of a partial update: the key, a description and a status.\<close>

definition patch_A :: Tickets where
  "patch_A = Tickets_zero\<lparr>T_UUID := T_UUID ticket_A,
     T_Description := ''Updated Description'', T_Status := ReadyTicket\<rparr>"

text \<open>A feature-creation request that names no workspace, and two possible outcomes of
  the struct validation on it: a validator without rules, and one that requires the
  workspace UUID.\<close>

definition feature_request_B :: WorkspaceFeatures where
  "feature_request_B = WorkspaceFeatures_zero\<lparr>F_Uuid := ''feature-2'', F_Name := ''second-feature''\<rparr>"

definition Validate_no_rules :: "WorkspaceFeatures \<Rightarrow> error option" where
  "Validate_no_rules f = None"

definition Validate_workspace_required :: "WorkspaceFeatures \<Rightarrow> error option" where
  "Validate_workspace_required f =
     (if F_WorkspaceUuid f = [] then Some ''WorkspaceUuid is a required field'' else None)"

definition stories_payload_B :: FeatureOutput where
  "stories_payload_B = \<lparr>FO_FeatureContext = ''Feature Context'',
     FO_FeatureUuid = ''Fake-feature-uuid'',
     FO_Stories = [\<lparr>US_UserStory = ''This is a test user story 4'',
                     US_Rationale = ''This is a test rationale 4'', US_Order = 4\<rparr>,
                   \<lparr>US_UserStory = ''This is a test user story 5'',
                     US_Rationale = ''This is a test rationale 5'', US_Order = 5\<rparr>]\<rparr>"

text \<open>A store with one paid bounty of 200000000000000000 sats, and one with three
  bounties of which one is paid.\<close>

definition bounty_C :: NewBounty where
  "bounty_C = \<lparr>B_ID = 1, B_OwnerID = ''test-pubkey'', B_Paid = True, B_Show = True,
     B_Type = ''coding_task'', B_WantedType = ''Other'', B_Assignee = ''hunter-pubkey'',
     B_Title = ''Large bounty'', B_Description = ''A bounty with a large price'',
     B_Price = 200000000000000000, B_Created = 1700000000, B_Updated = None,
     B_CodingLanguages = [], B_WorkspaceUuid = ''workspace-1'', B_PhaseUuid = [],
     B_FeatureUuid = []\<rparr>"

definition db_C :: database where
  "db_C = empty_db\<lparr>bounties := [bounty_C], bounty_seq := 1\<rparr>"

definition db_D :: database where
  "db_D = empty_db\<lparr>bounties :=
       [bounty_C\<lparr>B_Price := 5000\<rparr>,
        bounty_C\<lparr>B_ID := 2, B_Price := 7000, B_Paid := False\<rparr>,
        bounty_C\<lparr>B_ID := 3, B_Price := 3000, B_Paid := False\<rparr>],
     bounty_seq := 3\<rparr>"

definition range_C :: PaymentDateRange where
  "range_C = \<lparr>PD_StartDate = 1600000000, PD_EndDate = 1800000000, PD_PaymentType = ''payment''\<rparr>"

text \<open>What the implementation at hand yields for a \<open>float64\<close> outside the range of
  \<open>uint\<close> in the examples.\<close>

definition impl_A :: "int \<Rightarrow> 64 word" where
  "impl_A f = 9223372036854775808"

text \<open>A chat with 22 stored messages, a workflow engine that accepts every payload, and
  a request to send one more message.\<close>

definition chat_message_A :: "nat \<Rightarrow> ChatMessage" where
  "chat_message_A i = \<lparr>M_ID = CHR ''m'' # replicate i CHR ''i'', M_ChatID = ''chat-1'',
     M_Message = replicate (Suc i) CHR ''a'',
     M_Role = (if even i then ''user'' else ''assistant''),
     M_Timestamp = 1700000000 + int i, M_Status = ''sent'', M_Source = ''user''\<rparr>"

definition db_chat :: database where
  "db_chat = empty_db\<lparr>chat_messages := map chat_message_A [0..<22]\<rparr>"

definition env_A :: environment where
  "env_A = \<lparr>SWWFKEY = ''test-key'', HOST = ''https://people.example'',
     httpClient_Do = (\<lambda>payload. Inr \<lparr>HR_StatusCode = 200, HR_Body = ''{}'',
       HR_ProjectID = Inr 4711\<rparr>)\<rparr>"

definition GetProductBrief_A :: "database \<Rightarrow> string \<Rightarrow> error + string" where
  "GetProductBrief_A db workspaceUuid = Inr ''Product brief of the workspace''"

definition request_A :: SendMessage_request where
  "request_A = \<lparr>Q_ChatID = ''chat-1'', Q_Message = ''hello'', Q_ContextTags = [],
     Q_SourceWebsocketID = ''ws-1'', Q_WorkspaceUUID = ''workspace-1''\<rparr>"

section \<open>Ticket upserts: validation\<close>

text \<open>
  Claim C4. An upsert of a ticket whose UUID is absent (\<open>uuid.Nil\<close>) fails with the
  validation error "ticket UUID is required", through \<open>CreateOrEditTicket\<close> as well as
  through \<open>UpdateTicket\<close>, and the store (hence the set of ticket rows) is left exactly
  as it was.
\<close>

theorem ticket_upsert_without_uuid_rejected:
  assumes "T_UUID ticket = uuid_Nil"
  shows "CreateOrEditTicket now db ticket = (Inl ''ticket UUID is required'', db)
       \<and> UpdateTicket now db ticket = (Inl ''ticket UUID is required'', db)"
  using assms by (simp add: CreateOrEditTicket_def UpdateTicket_def)

theorem ticket_upsert_without_uuid_rejected_witness:
  "T_UUID (ticket_A\<lparr>T_UUID := uuid_Nil\<rparr>) = uuid_Nil
   \<and> CreateOrEditTicket 1700000500 empty_db (ticket_A\<lparr>T_UUID := uuid_Nil\<rparr>)
       = (Inl ''ticket UUID is required'', empty_db)
   \<and> UpdateTicket 1700000500 empty_db (ticket_A\<lparr>T_UUID := uuid_Nil\<rparr>)
       = (Inl ''ticket UUID is required'', empty_db)"
  using ticket_upsert_without_uuid_rejected
    [of "ticket_A\<lparr>T_UUID := uuid_Nil\<rparr>" 1700000500 empty_db]
  by simp

lemmas TicketStatus_defs = DraftTicket_def ReadyTicket_def InProgressTicket_def
  TestTicket_def DeployTicket_def PayTicket_def CompletedTicket_def

text \<open>
  Claim C5. An upsert whose status is non-empty and is none of the seven enumerated
  values is rejected by \<open>CreateOrEditTicket\<close> and by \<open>UpdateTicket\<close> with an error, and
  the store is returned unchanged: no ticket row is created or modified. (The error is
  "invalid ticket status", unless the UUID is absent as well, which is reported first.)
\<close>

theorem ticket_upsert_invalid_status_rejected:
  assumes "T_Status ticket \<noteq> []"
    and "T_Status ticket \<notin> {DraftTicket, ReadyTicket, InProgressTicket, TestTicket,
           DeployTicket, PayTicket, CompletedTicket}"
  shows "CreateOrEditTicket now db ticket =
           (Inl (if T_UUID ticket = uuid_Nil then ''ticket UUID is required''
                 else ''invalid ticket status''), db)
       \<and> UpdateTicket now db ticket =
           (Inl (if T_UUID ticket = uuid_Nil then ''ticket UUID is required''
                 else ''invalid ticket status''), db)"
  using assms by (simp add: CreateOrEditTicket_def UpdateTicket_def IsValidTicketStatus_def)

theorem ticket_upsert_invalid_status_rejected_witness:
  "CreateOrEditTicket 1700000500 db_A (ticket_A\<lparr>T_Status := ''archived''\<rparr>)
     = (Inl ''invalid ticket status'', db_A)
   \<and> UpdateTicket 1700000500 db_A (ticket_A\<lparr>T_Status := ''archived''\<rparr>)
     = (Inl ''invalid ticket status'', db_A)"
proof -
  have nonempty: "T_Status (ticket_A\<lparr>T_Status := ''archived''\<rparr>) \<noteq> []"
    by simp
  have invalid: "T_Status (ticket_A\<lparr>T_Status := ''archived''\<rparr>) \<notin>
      {DraftTicket, ReadyTicket, InProgressTicket, TestTicket, DeployTicket, PayTicket,
       CompletedTicket}"
    by (simp add: TicketStatus_defs)
  have key: "T_UUID (ticket_A\<lparr>T_Status := ''archived''\<rparr>) \<noteq> uuid_Nil"
    by (simp add: ticket_A_def uuid_Nil_def)
  from ticket_upsert_invalid_status_rejected [OF nonempty invalid, of 1700000500 db_A] key
  show ?thesis by simp
qed

section \<open>Ticket upserts: partial update\<close>

lemma find_after_keyed_map:
  assumes "\<And>r. T_UUID r = u \<Longrightarrow> T_UUID (g r) = u"
  shows "find (\<lambda>t. T_UUID t = u) (map (\<lambda>r. if T_UUID r = u then g r else r) xs)
       = map_option g (find (\<lambda>t. T_UUID t = u) xs)"
  using assms by (induction xs) auto

lemma find_Some_key: "find (\<lambda>t. T_UUID t = u) xs = Some t \<Longrightarrow> T_UUID t = u"
  by (induction xs) (auto split: if_splits)

lemma existing_ticket_update:
  fixes now :: time
  assumes healthy: "db_fault db = None"
    and found: "find (\<lambda>t. T_UUID t = T_UUID p) (tickets db) = Some old"
    and key: "T_UUID p \<noteq> uuid_Nil"
    and status: "T_Status p = [] \<or> IsValidTicketStatus (T_Status p)"
  defines "db' \<equiv> db\<lparr>tickets := map (\<lambda>row. if T_UUID row = T_UUID p
                       then Tickets_Updates row (p\<lparr>T_UpdatedAt := now\<rparr>) else row) (tickets db)\<rparr>"
  shows "CreateOrEditTicket now db p = (Inr (Tickets_Updates old (p\<lparr>T_UpdatedAt := now\<rparr>)), db')"
    and "UpdateTicket now db p = (Inr (Tickets_Updates old (p\<lparr>T_UpdatedAt := now\<rparr>)), db')"
    and "find (\<lambda>t. T_UUID t = T_UUID p) (tickets db')
           = Some (Tickets_Updates old (p\<lparr>T_UpdatedAt := now\<rparr>))"
proof -
  have old_key: "T_UUID old = T_UUID p"
    using found by (rule find_Some_key)
  have keep: "\<And>r. T_UUID r = T_UUID p \<Longrightarrow>
      T_UUID (Tickets_Updates r (p\<lparr>T_UpdatedAt := now\<rparr>)) = T_UUID p"
    using key by (simp add: Tickets_Updates_def)
  show refetch: "find (\<lambda>t. T_UUID t = T_UUID p) (tickets db')
           = Some (Tickets_Updates old (p\<lparr>T_UpdatedAt := now\<rparr>))"
    unfolding db'_def using find_after_keyed_map [OF keep] found by simp
  have first: "tickets_First db (T_UUID p) = Inr old"
    using healthy found by (simp add: tickets_First_def)
  have upd: "tickets_Updates db old (p\<lparr>T_UpdatedAt := now\<rparr>) = (None, db')"
    using healthy old_key by (simp add: tickets_Updates_def db'_def)
  have healthy': "db_fault db' = None"
    using healthy by (simp add: db'_def)
  have again: "tickets_First db' (T_UUID p)
      = Inr (Tickets_Updates old (p\<lparr>T_UpdatedAt := now\<rparr>))"
    using healthy' refetch by (simp add: tickets_First_def)
  show "CreateOrEditTicket now db p
      = (Inr (Tickets_Updates old (p\<lparr>T_UpdatedAt := now\<rparr>)), db')"
    using key status first upd again by (auto simp add: CreateOrEditTicket_def)
  show "UpdateTicket now db p
      = (Inr (Tickets_Updates old (p\<lparr>T_UpdatedAt := now\<rparr>)), db')"
    using key status first upd again by (auto simp add: UpdateTicket_def)
qed

text \<open>
  Claim C6. A partial update of an existing ticket (the store answers, the payload carries
  the key of a stored ticket and an empty or valid status) succeeds through
  \<open>CreateOrEditTicket\<close> and through \<open>UpdateTicket\<close> alike, the ticket returned is the
  stored row afterwards, and every field the payload leaves at its zero value keeps the
  value it had before: in particular name, feature UUID and phase UUID are unchanged when
  only description and status are sent. (\<open>UpdatedAt\<close> is not a payload field in this
  sense: the operation stamps it with the current time itself.)
\<close>

theorem ticket_partial_update_keeps_omitted_fields:
  assumes "db_fault db = None"
    and "find (\<lambda>t. T_UUID t = T_UUID p) (tickets db) = Some old"
    and "T_UUID p \<noteq> uuid_Nil"
    and "T_Status p = [] \<or> IsValidTicketStatus (T_Status p)"
  shows "\<exists>t' db'. CreateOrEditTicket now db p = (Inr t', db')
       \<and> UpdateTicket now db p = (Inr t', db')
       \<and> find (\<lambda>t. T_UUID t = T_UUID p) (tickets db') = Some t'
       \<and> (T_Name p = [] \<longrightarrow> T_Name t' = T_Name old)
       \<and> (T_FeatureUUID p = [] \<longrightarrow> T_FeatureUUID t' = T_FeatureUUID old)
       \<and> (T_PhaseUUID p = [] \<longrightarrow> T_PhaseUUID t' = T_PhaseUUID old)
       \<and> (T_Description p = [] \<longrightarrow> T_Description t' = T_Description old)
       \<and> (T_Status p = [] \<longrightarrow> T_Status t' = T_Status old)
       \<and> (T_Sequence p = 0 \<longrightarrow> T_Sequence t' = T_Sequence old)
       \<and> (T_Version p = 0 \<longrightarrow> T_Version t' = T_Version old)
       \<and> (T_TicketGroup p = None \<longrightarrow> T_TicketGroup t' = T_TicketGroup old)
       \<and> (T_Author p = None \<longrightarrow> T_Author t' = T_Author old)
       \<and> (T_AuthorID p = None \<longrightarrow> T_AuthorID t' = T_AuthorID old)
       \<and> (T_CreatedAt p = time_zero \<longrightarrow> T_CreatedAt t' = T_CreatedAt old)"
  using existing_ticket_update [OF assms, of now]
  by (simp add: Tickets_Updates_def)

theorem ticket_partial_update_keeps_omitted_fields_witness:
  "\<exists>t' db'. CreateOrEditTicket 1700000500 db_A patch_A = (Inr t', db')
     \<and> UpdateTicket 1700000500 db_A patch_A = (Inr t', db')
     \<and> T_Description t' = ''Updated Description'' \<and> T_Status t' = ReadyTicket
     \<and> T_Name t' = ''Test Ticket'' \<and> T_FeatureUUID t' = ''feature-1''
     \<and> T_PhaseUUID t' = ''phase-1''"
proof -
  have healthy: "db_fault db_A = None"
    by (simp add: db_A_def)
  have found: "find (\<lambda>t. T_UUID t = T_UUID patch_A) (tickets db_A) = Some ticket_A"
    by (simp add: db_A_def patch_A_def)
  have key: "T_UUID patch_A \<noteq> uuid_Nil"
    by (simp add: patch_A_def ticket_A_def uuid_Nil_def)
  have status: "T_Status patch_A = [] \<or> IsValidTicketStatus (T_Status patch_A)"
    by (simp add: patch_A_def IsValidTicketStatus_def)
  from ticket_partial_update_keeps_omitted_fields [OF healthy found key status, of 1700000500]
  obtain t' db' where res: "CreateOrEditTicket 1700000500 db_A patch_A = (Inr t', db')"
      "UpdateTicket 1700000500 db_A patch_A = (Inr t', db')"
    and frame: "T_Name patch_A = [] \<longrightarrow> T_Name t' = T_Name ticket_A"
      "T_FeatureUUID patch_A = [] \<longrightarrow> T_FeatureUUID t' = T_FeatureUUID ticket_A"
      "T_PhaseUUID patch_A = [] \<longrightarrow> T_PhaseUUID t' = T_PhaseUUID ticket_A"
    by blast
  have omitted: "T_Name patch_A = []" "T_FeatureUUID patch_A = []" "T_PhaseUUID patch_A = []"
    by (simp_all add: patch_A_def Tickets_zero_def)
  have kept: "T_Name t' = ''Test Ticket''" "T_FeatureUUID t' = ''feature-1''"
      "T_PhaseUUID t' = ''phase-1''"
    using frame omitted by (simp_all add: ticket_A_def)
  have sent: "T_Description t' = ''Updated Description''" "T_Status t' = ReadyTicket"
    using res(1) existing_ticket_update(1) [OF healthy found key status, of 1700000500]
    by (auto simp add: Tickets_Updates_def patch_A_def ReadyTicket_def)
  from res kept sent show ?thesis by blast
qed

section \<open>Ticket to bounty: the derived fields\<close>

text \<open>
  Claim C1. Take a ticket with title (name) T, description D, phase UUID P and feature
  UUID F, and let the feature row with UUID F belong to workspace W. When the store
  answers, converting the ticket succeeds, appends exactly one row to the bounties, and
  that bounty has Title T, Description D, PhaseUuid P, WorkspaceUuid W, Type
  "freelance_job_request", Price 21 and Show true.
\<close>

theorem bounty_from_ticket_fields:
  assumes "db_fault db = None"
    and "find (\<lambda>f. F_Uuid f = T_FeatureUUID ticket) (features db) = Some feature"
  shows "\<exists>b db'. CreateBountyFromTicket now db ticket pubkey = (Inr b, db')
       \<and> bounties db' = bounties db @ [b]
       \<and> B_Title b = T_Name ticket
       \<and> B_Description b = T_Description ticket
       \<and> B_PhaseUuid b = T_PhaseUUID ticket
       \<and> B_WorkspaceUuid b = F_WorkspaceUuid feature
       \<and> B_Type b = ''freelance_job_request''
       \<and> B_Price b = 21
       \<and> B_Show b"
  using assms
  by (simp add: CreateBountyFromTicket_def GetFeatureByUuid_def bounties_Create_def Let_def)

theorem bounty_from_ticket_fields_witness:
  "\<exists>b db'. CreateBountyFromTicket 1700000500 db_A ticket_A ''test-pubkey'' = (Inr b, db')
     \<and> bounties db' = [b]
     \<and> B_Title b = ''Test Ticket''
     \<and> B_Description b = ''Test Description''
     \<and> B_PhaseUuid b = ''phase-1''
     \<and> B_WorkspaceUuid b = ''workspace-1''
     \<and> B_Type b = ''freelance_job_request''
     \<and> B_Price b = 21
     \<and> B_Show b"
proof -
  have healthy: "db_fault db_A = None"
    by (simp add: db_A_def)
  have found: "find (\<lambda>f. F_Uuid f = T_FeatureUUID ticket_A) (features db_A) = Some feature_A"
    by (simp add: db_A_def ticket_A_def feature_A_def)
  from bounty_from_ticket_fields [OF healthy found, of 1700000500 "''test-pubkey''"]
  show ?thesis by (simp add: db_A_def ticket_A_def feature_A_def)
qed

section \<open>Ticket to bounty: unknown ticket\<close>

lemma find_absent:
  assumes "\<forall>x\<in>set xs. \<not> P x"
  shows "find P xs = None"
  using assms by (simp add: find_None_iff)

lemma GetTicket_absent:
  assumes "\<forall>t\<in>set (tickets db). T_UUID t \<noteq> u"
  shows "\<exists>err. GetTicket db u = Inl err"
proof (cases "db_fault db")
  case None
  moreover have "find (\<lambda>t. T_UUID t = u) (tickets db) = None"
    using assms by (intro find_absent) simp
  ultimately show ?thesis
    by (simp add: GetTicket_def tickets_Find_def)
next
  case (Some msg)
  then show ?thesis
    by (simp add: GetTicket_def tickets_Find_def)
qed

text \<open>
  Claim C2. For an authenticated caller and a ticket UUID (a non-empty path parameter)
  that is the UUID of no stored ticket, the conversion answers with status not-found
  and returns the store as it was: the bounties are unchanged, no bounty row is created.
\<close>

theorem ticket_to_bounty_unknown_ticket:
  assumes "pubKeyFromAuth \<noteq> []"
    and "ticketUUID \<noteq> []"
    and "\<forall>t\<in>set (tickets db). T_UUID t \<noteq> ticketUUID"
  shows "TicketToBounty now db pubKeyFromAuth ticketUUID
           = (\<lparr>resp_status = StatusNotFound, resp_body = NoBody\<rparr>, db)
       \<and> bounties (snd (TicketToBounty now db pubKeyFromAuth ticketUUID)) = bounties db"
proof -
  from GetTicket_absent [OF assms(3)] obtain err where "GetTicket db ticketUUID = Inl err" ..
  with assms(1,2) show ?thesis
    by (simp add: TicketToBounty_def)
qed

theorem ticket_to_bounty_unknown_ticket_witness:
  "TicketToBounty 1700000500 db_A ''test-pubkey'' ''7c9e6679-7425-40de-944b-e07fc1f90ae7''
     = (\<lparr>resp_status = 404, resp_body = NoBody\<rparr>, db_A)
   \<and> bounties (snd (TicketToBounty 1700000500 db_A ''test-pubkey''
        ''7c9e6679-7425-40de-944b-e07fc1f90ae7'')) = []"
proof -
  have auth: "''test-pubkey'' \<noteq> []" by simp
  have supplied: "''7c9e6679-7425-40de-944b-e07fc1f90ae7'' \<noteq> []" by simp
  have unknown: "\<forall>t\<in>set (tickets db_A). T_UUID t \<noteq> ''7c9e6679-7425-40de-944b-e07fc1f90ae7''"
    by (simp add: db_A_def ticket_A_def)
  from ticket_to_bounty_unknown_ticket [OF auth supplied unknown, of 1700000500]
  show ?thesis by (simp add: StatusNotFound_def db_A_def)
qed

section \<open>Bounties of a feature and phase\<close>

lemma no_rows_of_pair:
  assumes "\<forall>b\<in>set (bounties db). \<forall>ph\<in>set (feature_phases db).
      \<not> (B_PhaseUuid b = PH_Uuid ph \<and> PH_Uuid ph = phaseUuid
         \<and> PH_FeatureUuid ph = featureUuid \<and> matches b)"
  shows "filter (\<lambda>b. B_PhaseUuid b \<in> set (map PH_Uuid
             (filter (\<lambda>ph. PH_FeatureUuid ph = featureUuid \<and> PH_Uuid ph = phaseUuid)
                (feature_phases db))) \<and> matches b) (bounties db) = []"
  using assms by (auto simp add: filter_empty_conv)

text \<open>
  Claim C7. For an authenticated caller, listing the bounties of a feature UUID and a
  phase UUID answers with status not-found and no body, not with status OK and an empty
  list, whenever no bounty matches: no bounty that the filters of the request accept is
  linked to a phase with that UUID belonging to that feature. This covers the pair that
  exists without bounties as well as UUIDs of no feature or phase.
\<close>

theorem bounties_by_feature_and_phase_none_found:
  assumes "pubKeyFromAuth \<noteq> []"
    and "\<forall>b\<in>set (bounties db). \<forall>ph\<in>set (feature_phases db).
           \<not> (B_PhaseUuid b = PH_Uuid ph \<and> PH_Uuid ph = phaseUuid
              \<and> PH_FeatureUuid ph = featureUuid \<and> matches b)"
  shows "featureHandler_GetBountiesByFeatureAndPhaseUuid generateBountyHandler db
           pubKeyFromAuth featureUuid phaseUuid matches
         = \<lparr>resp_status = StatusNotFound, resp_body = NoBody\<rparr>"
  using assms(1) no_rows_of_pair [OF assms(2)]
  by (simp add: featureHandler_GetBountiesByFeatureAndPhaseUuid_def
      database_GetBountiesByFeatureAndPhaseUuid_def split: option.split)

theorem bounties_by_feature_and_phase_none_found_witness:
  "featureHandler_GetBountiesByFeatureAndPhaseUuid length db_E ''test-pubkey''
       ''empty-feature'' ''empty-phase'' (\<lambda>b. True)
     = \<lparr>resp_status = 404, resp_body = NoBody\<rparr>
   \<and> featureHandler_GetBountiesByFeatureAndPhaseUuid length db_E ''test-pubkey''
       ''invalid-feature-uuid'' ''invalid-phase-uuid'' (\<lambda>b. True)
     = \<lparr>resp_status = 404, resp_body = NoBody\<rparr>"
proof -
  have auth: "''test-pubkey'' \<noteq> []" by simp
  have exists_empty: "\<forall>b\<in>set (bounties db_E). \<forall>ph\<in>set (feature_phases db_E).
      \<not> (B_PhaseUuid b = PH_Uuid ph \<and> PH_Uuid ph = ''empty-phase''
         \<and> PH_FeatureUuid ph = ''empty-feature'' \<and> True)"
    by (simp add: db_E_def db_A_def bounty_E_def phase_A_def)
  have unknown: "\<forall>b\<in>set (bounties db_E). \<forall>ph\<in>set (feature_phases db_E).
      \<not> (B_PhaseUuid b = PH_Uuid ph \<and> PH_Uuid ph = ''invalid-phase-uuid''
         \<and> PH_FeatureUuid ph = ''invalid-feature-uuid'' \<and> True)"
    by (simp add: db_E_def db_A_def bounty_E_def phase_A_def)
  from bounties_by_feature_and_phase_none_found [OF auth exists_empty, of length]
    bounties_by_feature_and_phase_none_found [OF auth unknown, of length]
  show ?thesis by (simp add: StatusNotFound_def)
qed

text \<open>
  The other direction, for comparison with the handler test: when the store answers and
  some bounty accepted by the filters is linked to the phase of the feature, the answer is
  status OK with the bounties of the pair. On the store of the test the bounty that names
  only its phase is listed under the phase's feature, and not under another feature.
\<close>

lemma bounties_by_feature_and_phase_found:
  assumes "pubKeyFromAuth \<noteq> []" and "db_fault db = None"
    and "featureUuid \<noteq> []" and "phaseUuid \<noteq> []"
    and "b \<in> set (bounties db)" and "ph \<in> set (feature_phases db)"
    and "B_PhaseUuid b = PH_Uuid ph" and "PH_Uuid ph = phaseUuid"
    and "PH_FeatureUuid ph = featureUuid" and "matches b"
  shows "\<exists>rows. rows \<noteq> [] \<and> b \<in> set rows
     \<and> featureHandler_GetBountiesByFeatureAndPhaseUuid generateBountyHandler db
           pubKeyFromAuth featureUuid phaseUuid matches
         = \<lparr>resp_status = StatusOK, resp_body = Json (generateBountyHandler rows)\<rparr>"
proof -
  let ?rows = "filter (\<lambda>b. B_PhaseUuid b \<in> set (map PH_Uuid
             (filter (\<lambda>ph. PH_FeatureUuid ph = featureUuid \<and> PH_Uuid ph = phaseUuid)
                (feature_phases db))) \<and> matches b) (bounties db)"
  have member: "b \<in> set ?rows"
    using assms(5-10) by force
  have "?rows \<noteq> []"
    by (rule length_pos_if_in_set [OF member, unfolded length_greater_0_conv])
  with member assms(1-4) show ?thesis
    by (intro exI [of _ ?rows])
      (simp add: featureHandler_GetBountiesByFeatureAndPhaseUuid_def
        database_GetBountiesByFeatureAndPhaseUuid_def Let_def)
qed

lemma bounties_by_feature_and_phase_test_store:
  "featureHandler_GetBountiesByFeatureAndPhaseUuid (map B_Title) db_E ''test-pubkey''
       ''feature-1'' ''phase-1'' (\<lambda>b. True)
     = \<lparr>resp_status = 200, resp_body = Json [''test-bounty'']\<rparr>
   \<and> featureHandler_GetBountiesByFeatureAndPhaseUuid (map B_Title) db_E ''test-pubkey''
       ''empty-feature'' ''phase-1'' (\<lambda>b. True)
     = \<lparr>resp_status = 404, resp_body = NoBody\<rparr>"
  by (simp add: featureHandler_GetBountiesByFeatureAndPhaseUuid_def
      database_GetBountiesByFeatureAndPhaseUuid_def db_E_def db_A_def bounty_E_def phase_A_def
      StatusOK_def StatusNotFound_def Let_def)

section \<open>Bulk story ingestion\<close>

lemma GetFeatureByUuid_absent:
  assumes "\<forall>f\<in>set (features db). F_Uuid f \<noteq> u"
  shows "GetFeatureByUuid db u = WorkspaceFeatures_zero"
proof -
  have "find (\<lambda>f. F_Uuid f = u) (features db) = None"
    using assms by (intro find_absent) simp
  then show ?thesis
    by (simp add: GetFeatureByUuid_def split: option.split)
qed

lemma GetFeatureStories_loop_absent:
  assumes "\<forall>f\<in>set (features db). F_Uuid f \<noteq> u"
  shows "GetFeatureStories_loop xid clock u n ss db = db"
proof (induction ss arbitrary: n)
  case Nil
  show ?case by simp
next
  case (Cons story rest)
  have "F_ID (GetFeatureByUuid db u) = 0"
    using GetFeatureByUuid_absent [OF assms] by (simp add: WorkspaceFeatures_zero_def)
  with Cons.IH show ?case by simp
qed

text \<open>
  Claim C8. A bulk ingestion payload addressed to a feature UUID that no stored feature
  has is answered with status OK, no error being reported, every story of the payload is
  skipped, and the store is left as it was: the stories of every feature, and so their
  number, are unchanged.
\<close>

theorem story_ingestion_unknown_feature:
  assumes "\<forall>f\<in>set (features db). F_Uuid f \<noteq> FO_FeatureUuid output"
  shows "GetFeatureStories xid clock db (Some output)
           = (\<lparr>resp_status = StatusOK, resp_body = Text ''User stories added successfully''\<rparr>, db)
       \<and> GetFeatureStoriesByFeatureUuid (snd (GetFeatureStories xid clock db (Some output))) u
           = GetFeatureStoriesByFeatureUuid db u"
  using GetFeatureStories_loop_absent [OF assms]
  by (simp add: GetFeatureStories_def)

theorem story_ingestion_unknown_feature_witness:
  "GetFeatureStories (\<lambda>n. ''story-'' @ replicate n CHR ''i'') (\<lambda>n. 1700000500 + int n) db_A
       (Some stories_payload_B)
     = (\<lparr>resp_status = 200, resp_body = Text ''User stories added successfully''\<rparr>, db_A)
   \<and> GetFeatureStoriesByFeatureUuid
        (snd (GetFeatureStories (\<lambda>n. ''story-'' @ replicate n CHR ''i'')
           (\<lambda>n. 1700000500 + int n) db_A (Some stories_payload_B))) ''feature-1'' = Inr []"
proof -
  have unknown: "\<forall>f\<in>set (features db_A). F_Uuid f \<noteq> FO_FeatureUuid stories_payload_B"
    by (simp add: db_A_def feature_A_def stories_payload_B_def)
  from story_ingestion_unknown_feature [OF unknown,
      of "\<lambda>n. ''story-'' @ replicate n CHR ''i''" "\<lambda>n. 1700000500 + int n" "''feature-1''"]
  show ?thesis by (simp add: StatusOK_def db_A_def GetFeatureStoriesByFeatureUuid_def)
qed

section \<open>Feature creation and the workspace check\<close>

lemma GetWorkspaceByUuid_absent:
  assumes "\<forall>w\<in>set (workspaces db). W_Uuid w \<noteq> u"
  shows "GetWorkspaceByUuid db u = Workspace_zero"
proof -
  have "find (\<lambda>w. W_Uuid w = u) (workspaces db) = None"
    using assms by (intro find_absent) simp
  then show ?thesis
    by (simp add: GetWorkspaceByUuid_def split: option.split)
qed

text \<open>
  A request without a workspace UUID is never answered 401, whatever the validation does:
  the zero workspace that the lookup returns has the empty UUID as well.
\<close>

lemma feature_creation_without_workspace_not_unauthorized:
  assumes "pubKeyFromAuth \<noteq> []"
    and "F_WorkspaceUuid features0 = []"
    and "\<forall>w\<in>set (workspaces db). W_Uuid w \<noteq> []"
  shows "resp_status (fst (CreateOrEditFeatures Validate_Struct xid db pubKeyFromAuth
           (Some features0))) \<in> {StatusOK, StatusBadRequest}"
  using assms GetWorkspaceByUuid_absent [OF assms(3)]
  by (auto simp add: CreateOrEditFeatures_def Workspace_zero_def Let_def
      split: option.split sum.split prod.split)

text \<open>
  The claim as stated fails for a request that names no workspace (an empty workspace
  UUID resolves to no workspace either): the lookup yields the zero workspace, whose
  UUID is empty as well, so the check lets the request pass. On the empty store, with
  caller \<open>test-pubkey\<close>: if the struct validation has no rule against it the feature is
  stored and the status is 200; if the validation requires the workspace UUID the status
  is 400. In neither case is it 401.
\<close>

theorem feature_creation_without_workspace_counterexample:
  "resp_status (fst (CreateOrEditFeatures Validate_no_rules ''xid-1'' empty_db ''test-pubkey''
       (Some feature_request_B))) = 200
   \<and> map F_Uuid (features (snd (CreateOrEditFeatures Validate_no_rules ''xid-1'' empty_db
       ''test-pubkey'' (Some feature_request_B)))) = [''feature-2'']
   \<and> resp_status (fst (CreateOrEditFeatures Validate_workspace_required ''xid-1'' empty_db
       ''test-pubkey'' (Some feature_request_B))) = 400"
  by (simp add: CreateOrEditFeatures_def feature_request_B_def WorkspaceFeatures_zero_def
      Validate_no_rules_def Validate_workspace_required_def GetWorkspaceByUuid_def
      Workspace_zero_def CreateOrEditFeature_def empty_db_def StatusOK_def StatusBadRequest_def
      Let_def)

text \<open>
  Claim C3, amended. Take an authenticated request whose body decodes and names a
  non-empty workspace UUID that no stored workspace has. Then no feature row is
  persisted (the store is returned as it was); the response is 401 with the message
  "Workspace does not exists" when the struct, completed with the caller identity, passes
  the validation, and 400 when the validation rejects it, which happens before the
  workspace is looked up.
\<close>

theorem feature_creation_unknown_workspace:
  assumes "pubKeyFromAuth \<noteq> []"
    and "F_WorkspaceUuid features0 \<noteq> []"
    and "\<forall>w\<in>set (workspaces db). W_Uuid w \<noteq> F_WorkspaceUuid features0"
  shows "snd (CreateOrEditFeatures Validate_Struct xid db pubKeyFromAuth (Some features0)) = db
       \<and> resp_status (fst (CreateOrEditFeatures Validate_Struct xid db pubKeyFromAuth
             (Some features0)))
           = (if Validate_Struct
                  (if F_Uuid features0 = []
                   then features0\<lparr>F_CreatedBy := pubKeyFromAuth, F_Uuid := xid\<rparr>
                   else features0\<lparr>F_CreatedBy := pubKeyFromAuth, F_UpdatedBy := pubKeyFromAuth\<rparr>)
                = None
              then StatusUnauthorized else StatusBadRequest)"
  using assms GetWorkspaceByUuid_absent [OF assms(3)]
  by (auto simp add: CreateOrEditFeatures_def Workspace_zero_def Let_def split: option.split)

theorem feature_creation_unknown_workspace_witness:
  "snd (CreateOrEditFeatures Validate_workspace_required ''xid-1'' db_A ''test-pubkey''
       (Some (feature_request_B\<lparr>F_WorkspaceUuid := ''non-existent-uuid''\<rparr>))) = db_A
   \<and> resp_status (fst (CreateOrEditFeatures Validate_workspace_required ''xid-1'' db_A
       ''test-pubkey'' (Some (feature_request_B\<lparr>F_WorkspaceUuid := ''non-existent-uuid''\<rparr>))))
     = 401"
proof -
  have auth: "''test-pubkey'' \<noteq> []" by simp
  have named: "F_WorkspaceUuid (feature_request_B\<lparr>F_WorkspaceUuid := ''non-existent-uuid''\<rparr>) \<noteq> []"
    by simp
  have unknown: "\<forall>w\<in>set (workspaces db_A).
      W_Uuid w \<noteq> F_WorkspaceUuid (feature_request_B\<lparr>F_WorkspaceUuid := ''non-existent-uuid''\<rparr>)"
    by (simp add: db_A_def workspace_A_def)
  from feature_creation_unknown_workspace [OF auth named unknown,
      of Validate_workspace_required "''xid-1''"]
  show ?thesis
    by (simp add: Validate_workspace_required_def feature_request_B_def StatusUnauthorized_def)
qed

section \<open>Chat: the history window\<close>

lemma sendToStakwork_posted:
  "snd (sendToStakwork env payload) = (if SWWFKEY env = [] then [] else [StakworkRequest payload])"
  by (simp add: sendToStakwork_def Let_def split: sum.split)

lemma history_window:
  "drop (if 20 < length h then length h - 20 else 0) h = drop (length h - min (length h) 20) h"
  by simp

lemma send_message_dispatch:
  assumes "Q_WorkspaceUUID request \<noteq> []"
    and "GetProductBrief db (Q_WorkspaceUUID request) = Inr context"
    and "GetChatMessagesForChatID db (Q_ChatID request) = Inr history"
  shows "\<exists>resp db' m rest p.
      SendMessage env GetProductBrief xid now db (Some request)
        = (resp, db', MessageStored m # rest)
    \<and> M_Status m = ''sending'' \<and> M_Role m = ''user''
    \<and> M_Message m = Q_Message request \<and> M_ChatID m = Q_ChatID request
    \<and> (\<exists>m'\<in>set (chat_messages db'). M_ID m' = M_ID m)
    \<and> V_history (P_vars p)
        = map (\<lambda>msg. \<lparr>HE_role = M_Role msg, HE_content = M_Message msg\<rparr>)
            (drop (length history - min (length history) 20) history)
    \<and> length (V_history (P_vars p)) = min (length history) 20
    \<and> (SWWFKEY env \<noteq> [] \<longrightarrow> (\<exists>rest'. rest = StakworkRequest p # rest'))
    \<and> (\<forall>q. StakworkRequest q \<in> set rest \<longrightarrow> q = p \<and> SWWFKEY env \<noteq> [])"
proof -
  define message where "message = \<lparr>M_ID = xid, M_ChatID = Q_ChatID request,
      M_Message = Q_Message request, M_Role = ''user'', M_Timestamp = now,
      M_Status = ''sending'', M_Source = ''user''\<rparr>"
  define window where "window = drop (length history - min (length history) 20) history"
  define payload where "payload = \<lparr>P_Name = ''Hive Chat Processor'', P_WorkflowID = 38842,
      P_vars = \<lparr>V_chatId = Q_ChatID request, V_messageId = M_ID message, V_message = Q_Message request,
        V_history = map (\<lambda>msg. \<lparr>HE_role = M_Role msg, HE_content = M_Message msg\<rparr>) window,
        V_contextTags = context, V_sourceWebsocketId = Q_SourceWebsocketID request,
        V_webhook_url = HOST env @ ''/hivechat/response''\<rparr>\<rparr>"
  define db1 where "db1 = db\<lparr>chat_messages := chat_messages db @ [message]\<rparr>"
  from assms(3) have healthy: "db_fault db = None"
    by (cases "db_fault db") (simp_all add: GetChatMessagesForChatID_def)
  have added: "AddChatMessage db message = (Inr message, db1)"
    using healthy by (simp add: AddChatMessage_def db1_def)
  have healthy1: "db_fault db1 = None"
    using healthy by (simp add: db1_def)
  obtain res posted where sent: "sendToStakwork env payload = (res, posted)"
    by (cases "sendToStakwork env payload")
  with sendToStakwork_posted [of env payload]
  have posted: "posted = (if SWWFKEY env = [] then [] else [StakworkRequest payload])"
    by simp
  have len: "length (V_history (P_vars payload)) = min (length history) 20"
    by (simp add: payload_def window_def)
  have hist: "V_history (P_vars payload)
      = map (\<lambda>msg. \<lparr>HE_role = M_Role msg, HE_content = M_Message msg\<rparr>)
          (drop (length history - min (length history) 20) history)"
    by (simp add: payload_def window_def)
  have msg: "M_Status message = ''sending''" "M_Role message = ''user''"
      "M_Message message = Q_Message request" "M_ChatID message = Q_ChatID request"
    by (simp_all add: message_def)
  show ?thesis
  proof (cases res)
    case (Inl err)
    define failed where "failed = message\<lparr>M_Status := ''error''\<rparr>"
    define db2 where "db2 = snd (UpdateChatMessage db1 failed)"
    have result: "SendMessage env GetProductBrief xid now db (Some request)
        = (\<lparr>resp_status = StatusInternalServerError,
            resp_body = Json \<lparr>CR_Success = False,
              CR_Message = ''Failed to process message: '' @ err, CR_Data = None\<rparr>\<rparr>,
           db2, MessageStored message # posted @ [MessageUpdated failed])"
      using assms added sent Inl history_window [of history]
      by (simp add: SendMessage_def Let_def message_def [symmetric] window_def [symmetric]
          payload_def [symmetric] failed_def db2_def del: drop_drop)
    have stored: "\<exists>m'\<in>set (chat_messages db2). M_ID m' = M_ID message"
      using healthy1 by (auto simp add: db2_def UpdateChatMessage_def db1_def failed_def)
    from result msg stored hist len posted show ?thesis
      by (intro exI [of _ db2] exI [of _ message]
          exI [of _ "posted @ [MessageUpdated failed]"] exI [of _ payload] exI conjI) auto
  next
    case (Inr projectID)
    have result: "\<exists>resp rest'. SendMessage env GetProductBrief xid now db (Some request)
        = (resp, db1, MessageStored message # posted @ rest')
        \<and> (\<forall>q. StakworkRequest q \<notin> set rest')"
      using assms added sent Inr history_window [of history]
      by (simp add: SendMessage_def Let_def message_def [symmetric] window_def [symmetric]
          payload_def [symmetric] del: drop_drop)
    then obtain resp rest' where r: "SendMessage env GetProductBrief xid now db (Some request)
        = (resp, db1, MessageStored message # posted @ rest')"
      and no: "\<forall>q. StakworkRequest q \<notin> set rest'"
      by blast
    have stored: "\<exists>m'\<in>set (chat_messages db1). M_ID m' = M_ID message"
      by (auto simp add: db1_def)
    from r no msg stored hist len posted show ?thesis
      by (intro exI [of _ resp] exI [of _ db1] exI [of _ message]
          exI [of _ "posted @ rest'"] exI [of _ payload] conjI) auto
  qed
qed



lemma send_message_no_effects:
  assumes "decoded = None
     \<or> (\<exists>request. decoded = Some request
           \<and> (Q_WorkspaceUUID request = []
                \<or> (\<exists>err. GetProductBrief db (Q_WorkspaceUUID request) = Inl err)
                \<or> (\<exists>err. GetChatMessagesForChatID db (Q_ChatID request) = Inl err)))"
  shows "snd (snd (SendMessage env GetProductBrief xid now db decoded)) = []"
  using assms
  by (auto simp add: SendMessage_def split: option.split sum.split)

text \<open>
  Claim C9. Whatever the request, the store and the surroundings: a payload that
  \<open>SendMessage\<close> posts to the workflow engine belongs to a decoded request over a chat
  whose stored history, of \<open>n\<close> messages say, was read; the effect before it, the first
  of all, is storing the new user message with status \<open>sending\<close>, and that message is in
  the store afterwards; and the payload carries exactly \<open>min n 20\<close> history entries, the
  roles and texts of the last \<open>min n 20\<close> messages of the history in order. A payload is
  indeed posted whenever the request names a workspace, the product brief and the history
  are read without error and the API key is configured.
\<close>

theorem send_message_history_window:
  assumes "SendMessage env GetProductBrief xid now db decoded = (resp, db', effects)"
  shows "(\<forall>p. StakworkRequest p \<in> set effects \<longrightarrow>
            (\<exists>request history m rest.
                decoded = Some request
              \<and> GetChatMessagesForChatID db (Q_ChatID request) = Inr history
              \<and> effects = MessageStored m # StakworkRequest p # rest
              \<and> M_Status m = ''sending'' \<and> M_Role m = ''user''
              \<and> M_Message m = Q_Message request \<and> M_ChatID m = Q_ChatID request
              \<and> (\<exists>m'\<in>set (chat_messages db'). M_ID m' = M_ID m)
              \<and> V_history (P_vars p)
                  = map (\<lambda>msg. \<lparr>HE_role = M_Role msg, HE_content = M_Message msg\<rparr>)
                      (drop (length history - min (length history) 20) history)
              \<and> length (V_history (P_vars p)) = min (length history) 20))
       \<and> (\<forall>request context history.
            decoded = Some request \<and> Q_WorkspaceUUID request \<noteq> []
            \<and> GetProductBrief db (Q_WorkspaceUUID request) = Inr context
            \<and> GetChatMessagesForChatID db (Q_ChatID request) = Inr history
            \<and> SWWFKEY env \<noteq> []
            \<longrightarrow> (\<exists>p. StakworkRequest p \<in> set effects))"
proof (intro conjI allI impI)
  fix p
  assume dispatched: "StakworkRequest p \<in> set effects"
  have effects: "effects = snd (snd (SendMessage env GetProductBrief xid now db decoded))"
    using assms by simp
  from dispatched have nonempty: "effects \<noteq> []"
    by auto
  from nonempty effects send_message_no_effects [of decoded GetProductBrief db env xid now]
  obtain request brief history where reached: "decoded = Some request"
      "Q_WorkspaceUUID request \<noteq> []"
      "GetProductBrief db (Q_WorkspaceUUID request) = Inr brief"
      "GetChatMessagesForChatID db (Q_ChatID request) = Inr history"
    by (cases decoded; cases "GetProductBrief db (Q_WorkspaceUUID (the decoded))";
        cases "GetChatMessagesForChatID db (Q_ChatID (the decoded))") auto
  from send_message_dispatch [where GetProductBrief = GetProductBrief and db = db
      and env = env and xid = xid and now = now, OF reached(2,3,4)] assms reached(1)
  obtain m rest p0 where shape: "effects = MessageStored m # rest"
    and stored: "M_Status m = ''sending''" "M_Role m = ''user''"
      "M_Message m = Q_Message request" "M_ChatID m = Q_ChatID request"
      "\<exists>m'\<in>set (chat_messages db'). M_ID m' = M_ID m"
    and window: "V_history (P_vars p0)
        = map (\<lambda>msg. \<lparr>HE_role = M_Role msg, HE_content = M_Message msg\<rparr>)
            (drop (length history - min (length history) 20) history)"
      "length (V_history (P_vars p0)) = min (length history) 20"
    and first: "SWWFKEY env \<noteq> [] \<longrightarrow> (\<exists>rest'. rest = StakworkRequest p0 # rest')"
    and only: "\<forall>q. StakworkRequest q \<in> set rest \<longrightarrow> q = p0 \<and> SWWFKEY env \<noteq> []"
    by auto
  from dispatched shape have "StakworkRequest p \<in> set rest"
    by simp
  with only have same: "p = p0" and key: "SWWFKEY env \<noteq> []"
    by blast+
  from first key obtain rest' where "rest = StakworkRequest p0 # rest'"
    by blast
  with shape same have "effects = MessageStored m # StakworkRequest p # rest'"
    by simp
  with reached(1,4) stored window same
  show "\<exists>request history m rest.
                decoded = Some request
              \<and> GetChatMessagesForChatID db (Q_ChatID request) = Inr history
              \<and> effects = MessageStored m # StakworkRequest p # rest
              \<and> M_Status m = ''sending'' \<and> M_Role m = ''user''
              \<and> M_Message m = Q_Message request \<and> M_ChatID m = Q_ChatID request
              \<and> (\<exists>m'\<in>set (chat_messages db'). M_ID m' = M_ID m)
              \<and> V_history (P_vars p)
                  = map (\<lambda>msg. \<lparr>HE_role = M_Role msg, HE_content = M_Message msg\<rparr>)
                      (drop (length history - min (length history) 20) history)
              \<and> length (V_history (P_vars p)) = min (length history) 20"
    by blast
next
  fix request brief history
  assume reached: "decoded = Some request \<and> Q_WorkspaceUUID request \<noteq> []
      \<and> GetProductBrief db (Q_WorkspaceUUID request) = Inr brief
      \<and> GetChatMessagesForChatID db (Q_ChatID request) = Inr history
      \<and> SWWFKEY env \<noteq> []"
  then have r: "Q_WorkspaceUUID request \<noteq> []"
      "GetProductBrief db (Q_WorkspaceUUID request) = Inr brief"
      "GetChatMessagesForChatID db (Q_ChatID request) = Inr history"
    by simp_all
  from send_message_dispatch [where GetProductBrief = GetProductBrief and db = db
      and env = env and xid = xid and now = now, OF r] assms reached
  show "\<exists>p. StakworkRequest p \<in> set effects"
    by auto
qed

theorem send_message_history_window_witness:
  "\<exists>resp db' m p rest.
      SendMessage env_A GetProductBrief_A ''msg-22'' 1700000500 db_chat (Some request_A)
        = (resp, db', MessageStored m # StakworkRequest p # rest)
    \<and> M_Status m = ''sending''
    \<and> length (V_history (P_vars p)) = 20
    \<and> V_history (P_vars p)
        = map (\<lambda>i. \<lparr>HE_role = M_Role (chat_message_A i),
                     HE_content = M_Message (chat_message_A i)\<rparr>) [2..<22]"
proof -
  have named: "Q_WorkspaceUUID request_A \<noteq> []"
    by (simp add: request_A_def)
  have brief: "GetProductBrief_A db_chat (Q_WorkspaceUUID request_A)
      = Inr ''Product brief of the workspace''"
    by (simp add: GetProductBrief_A_def)
  have stored: "GetChatMessagesForChatID db_chat (Q_ChatID request_A)
      = Inr (map chat_message_A [0..<22])"
    by (simp add: GetChatMessagesForChatID_def db_chat_def empty_db_def request_A_def
        filter_map comp_def chat_message_A_def)
  have key: "SWWFKEY env_A \<noteq> []"
    by (simp add: env_A_def)
  obtain resp db' effects where run:
    "SendMessage env_A GetProductBrief_A ''msg-22'' 1700000500 db_chat (Some request_A)
      = (resp, db', effects)"
    by (metis prod_cases3)
  note window = send_message_history_window [OF run]
  from window named brief stored key obtain p where "StakworkRequest p \<in> set effects"
    by blast
  with window stored obtain m rest where
    shape: "effects = MessageStored m # StakworkRequest p # rest"
    and sending: "M_Status m = ''sending''"
    and entries: "V_history (P_vars p)
        = map (\<lambda>msg. \<lparr>HE_role = M_Role msg, HE_content = M_Message msg\<rparr>)
            (drop (length (map chat_message_A [0..<22])
               - min (length (map chat_message_A [0..<22])) 20) (map chat_message_A [0..<22]))"
    and count: "length (V_history (P_vars p)) = min (length (map chat_message_A [0..<22])) 20"
    by fastforce
  have count': "length (V_history (P_vars p)) = 20"
    using count by simp
  have skipped: "length (map chat_message_A [0..<22])
      - min (length (map chat_message_A [0..<22])) 20 = 2"
    by simp
  have tail: "drop 2 [0::nat..<22] = [2..<22]"
    by code_simp
  have "V_history (P_vars p)
      = map (\<lambda>msg. \<lparr>HE_role = M_Role msg, HE_content = M_Message msg\<rparr>)
          (map chat_message_A (drop 2 [0..<22]))"
    unfolding entries skipped by (simp only: drop_map)
  then have entries': "V_history (P_vars p)
      = map (\<lambda>i. \<lparr>HE_role = M_Role (chat_message_A i),
                   HE_content = M_Message (chat_message_A i)\<rparr>) [2..<22]"
    by (simp only: tail map_map comp_def)
  from run shape sending count' entries' show ?thesis
    by blast
qed

section \<open>Paid percentages\<close>

lemma sum_list_filter_conj_le:
  fixes f :: "'a \<Rightarrow> nat"
  shows "sum_list (map f (filter (\<lambda>x. P x \<and> Q x) xs)) \<le> sum_list (map f (filter Q xs))"
  by (induction xs) auto

lemma length_filter_conj_le:
  "length (filter (\<lambda>x. P x \<and> Q x) xs) \<le> length (filter Q xs)"
  by (induction xs) auto

lemma Scan_sum_nonzero:
  assumes "Scan_sum ps \<noteq> 0"
  shows "unat (Scan_sum ps) = sum_list (map unat ps)"
proof -
  from assms have "sum_list (map unat ps) < 2 ^ 64"
    by (auto simp add: Scan_sum_def Let_def split: if_splits)
  with assms show ?thesis
    by (auto simp add: Scan_sum_def Let_def unat_of_nat split: if_splits)
qed

text \<open>The paid bounties are among the posted ones, so their sum is no larger.\<close>

lemma sats_paid_le_posted:
  assumes "TotalSatsPosted db r w \<noteq> 0" and "TotalSatsPaid db r w \<noteq> 0"
  shows "unat (TotalSatsPaid db r w) \<le> unat (TotalSatsPosted db r w)"
proof -
  from assms(1) have healthy: "db_fault db = None"
    by (cases "db_fault db") (auto simp add: TotalSatsPosted_def)
  have posted: "unat (TotalSatsPosted db r w)
      = sum_list (map (unat \<circ> B_Price) (filter (in_range r w) (bounties db)))"
    using assms(1) healthy Scan_sum_nonzero [of "map B_Price (filter (in_range r w) (bounties db))"]
    by (simp add: TotalSatsPosted_def)
  have paid: "unat (TotalSatsPaid db r w)
      = sum_list (map (unat \<circ> B_Price)
          (filter (\<lambda>b. B_Paid b = True \<and> in_range r w b) (bounties db)))"
    using assms(2) healthy
      Scan_sum_nonzero [of "map B_Price (filter (\<lambda>b. B_Paid b = True \<and> in_range r w b) (bounties db))"]
    by (simp add: TotalSatsPaid_def)
  show ?thesis
    unfolding posted paid by (rule sum_list_filter_conj_le)
qed

text \<open>With the paid total at most the posted total, the quotient is far below \<open>2 ^ 53\<close>,
  where the conversion to \<open>float64\<close> and back is exact, whether the product wrapped
  around or not.\<close>

lemma uint_percentage_small:
  fixes p q :: "64 word"
  assumes "q \<noteq> 0" and "unat p \<le> unat q"
  shows "unat ((p * 100) div q) < 2 ^ 53"
proof (cases "unat q < 2 ^ 12")
  case True
  have q_pos: "0 < unat q"
    using assms(1) by (simp add: unat_gt_0)
  have "unat p * 100 < 2 ^ 64"
    using True assms(2) by simp
  then have "unat (p * 100) = unat p * 100"
    by (simp add: unat_word_ariths)
  then have "unat ((p * 100) div q) = unat p * 100 div unat q"
    by (simp add: unat_div)
  also have "\<dots> \<le> unat q * 100 div unat q"
    using assms(2) by (intro div_le_mono) simp
  also have "\<dots> = 100"
    using q_pos by simp
  finally show ?thesis by simp
next
  case False
  have bound: "unat (p * 100) < 2 ^ 64"
    using unsigned_less [of "p * 100"] by simp
  have "unat ((p * 100) div q) = unat (p * 100) div unat q"
    by (simp add: unat_div)
  also have "\<dots> \<le> unat (p * 100) div 2 ^ 12"
    using False by (intro div_le_mono2) simp_all
  also have "\<dots> < 2 ^ 53"
    using bound by simp
  finally show ?thesis .
qed

lemma float64_roundtrip_int:
  assumes "0 \<le> k" and "k < 2 ^ 53"
  shows "uint_of_float64 impl (math_Round (float64_of_int k)) = of_int k"
proof -
  have "nat k < 2 ^ 53"
    using assms by simp
  then have "float64_of_int k = k"
    using assms by (simp add: float64_of_int_def float64_of_nat_def)
  moreover have "k < 2 ^ 64"
    using assms(2) by simp
  ultimately show ?thesis
    using assms(1) by (simp add: uint_of_float64_def math_Round_def)
qed

lemma float64_roundtrip:
  fixes v :: "64 word"
  assumes "unat v < 2 ^ 53"
  shows "uint_of_float64 impl (math_Round (float64_of_int (uint v))) = v"
proof -
  have "nat (uint v) < 2 ^ 53"
    using assms by simp
  then have "float64_of_int (uint v) = uint v"
    by (simp add: float64_of_int_def float64_of_nat_def)
  moreover have "uint v < 2 ^ 64"
    using uint_bounded [of v] by simp
  ultimately show ?thesis
    by (simp add: uint_of_float64_def math_Round_def)
qed

text \<open>\<open>SatsPaidPercentage\<close> in the arithmetic of \<open>uint\<close>, for every store and range.\<close>

lemma SatsPaidPercentage_eq:
  "SatsPaidPercentage impl db r w =
     Inr (if TotalSatsPaid db r w \<noteq> 0 \<and> TotalSatsPosted db r w \<noteq> 0
          then (TotalSatsPaid db r w * 100) div TotalSatsPosted db r w else 0)"
proof (cases "TotalSatsPaid db r w \<noteq> 0 \<and> TotalSatsPosted db r w \<noteq> 0")
  case True
  then have "unat ((TotalSatsPaid db r w * 100) div TotalSatsPosted db r w) < 2 ^ 53"
    using sats_paid_le_posted [of db r w] by (intro uint_percentage_small) simp_all
  from float64_roundtrip [OF this, of impl] True show ?thesis
    by (simp add: SatsPaidPercentage_def uint_div_def Let_def)
next
  case False
  then show ?thesis
    by (auto simp add: SatsPaidPercentage_def Let_def)
qed

lemma SatsPaidPercentage_exact:
  assumes "TotalSatsPosted db r w \<noteq> 0" and "TotalSatsPaid db r w \<noteq> 0"
    and "unat (TotalSatsPaid db r w) * 100 < 2 ^ 64"
  shows "\<exists>v. SatsPaidPercentage impl db r w = Inr v
     \<and> unat v = unat (TotalSatsPaid db r w) * 100 div unat (TotalSatsPosted db r w)"
proof -
  have "unat (TotalSatsPaid db r w * 100) = unat (TotalSatsPaid db r w) * 100"
    using assms(3) by (simp add: unat_word_ariths)
  then have "unat ((TotalSatsPaid db r w * 100) div TotalSatsPosted db r w)
      = unat (TotalSatsPaid db r w) * 100 div unat (TotalSatsPosted db r w)"
    by (simp add: unat_div)
  with assms(1,2) show ?thesis
    by (simp add: SatsPaidPercentage_eq)
qed

lemma sint_of_int_small:
  assumes "- (2 ^ 63) \<le> k" and "k < 2 ^ 63"
  shows "sint (word_of_int k :: 64 word) = k"
  using assms by (simp add: sint_sbintrunc' signed_take_bit_int_eq_self)

lemma sint_of_nat_small:
  assumes "n < 2 ^ 63"
  shows "sint (of_nat n :: 64 word) = int n"
proof -
  have "sint (word_of_int (int n) :: 64 word) = int n"
    using assms by (intro sint_of_int_small) auto
  then show ?thesis by simp
qed

lemma Scan_count_nonzero:
  assumes "Scan_count rows \<noteq> 0"
  shows "Scan_count rows = of_nat (length rows)" and "length rows < 2 ^ 63"
    and "0 < length rows"
proof -
  from assms show "length rows < 2 ^ 63" and "Scan_count rows = of_nat (length rows)"
    by (auto simp add: Scan_count_def split: if_splits)
  with assms show "0 < length rows"
    by (cases rows) auto
qed

lemma int64_percentage:
  fixes p q :: nat
  assumes "0 < p" and "p \<le> q" and "q < 2 ^ 63" and "p * 100 < 2 ^ 63"
  shows "int64_div (of_nat p * 100) (of_nat q) = Inr (of_nat (p * 100 div q))"
    and "sint (of_nat (p * 100 div q) :: 64 word) = int (p * 100 div q)"
    and "p * 100 div q \<le> 100"
proof -
  have "\<not> (2 ^ 64 :: nat) dvd q"
  proof
    assume "(2 ^ 64 :: nat) dvd q"
    then have "(2 ^ 64 :: nat) \<le> q"
      using assms(1,2) by (intro dvd_imp_le) simp_all
    with assms(3) show False by simp
  qed
  then have q0: "(of_nat q :: 64 word) \<noteq> 0"
    by (simp add: word_of_nat_eq_0_iff)
  have "(of_nat p * 100 :: 64 word) = of_nat (p * 100)"
    by simp
  then have a: "sint (of_nat p * 100 :: 64 word) = int (p * 100)"
    using assms(4) sint_of_nat_small [of "p * 100"] by simp
  have b: "sint (of_nat q :: 64 word) = int q"
    using assms(3) by (rule sint_of_nat_small)
  have "p * 100 div q \<le> q * 100 div q"
    using assms(2) by (intro div_le_mono) simp
  then show le: "p * 100 div q \<le> 100"
    using assms(1,2) by simp
  then show "sint (of_nat (p * 100 div q) :: 64 word) = int (p * 100 div q)"
    by (intro sint_of_nat_small) simp
  have "sgn (int (p * 100)) * sgn (int q) * (\<bar>int (p * 100)\<bar> div \<bar>int q\<bar>) = int (p * 100 div q)"
    using assms(1,2) by (simp add: zdiv_int)
  then show "int64_div (of_nat p * 100) (of_nat q) = Inr (of_nat (p * 100 div q))"
    using q0 a b by (simp add: int64_div_def)
qed

lemma BountiesPaidPercentage_exact:
  assumes "TotalBountiesPosted db r w \<noteq> 0" and "TotalPaidBounties db r w \<noteq> 0"
    and "sint (TotalPaidBounties db r w) * 100 < 2 ^ 63"
  shows "\<exists>v. BountiesPaidPercentage impl db r w = Inr v
     \<and> uint v = sint (TotalPaidBounties db r w) * 100 div sint (TotalBountiesPosted db r w)"
proof -
  define paid where "paid = filter (\<lambda>b. B_Paid b = True \<and> in_range r w b) (bounties db)"
  define posted where "posted = filter (in_range r w) (bounties db)"
  from assms(2) have healthy: "db_fault db = None"
    by (cases "db_fault db") (auto simp add: TotalPaidBounties_def)
  have tp: "TotalPaidBounties db r w = Scan_count paid"
    and tq: "TotalBountiesPosted db r w = Scan_count posted"
    using healthy by (simp_all add: TotalPaidBounties_def TotalBountiesPosted_def paid_def posted_def)
  note p = Scan_count_nonzero [OF assms(2) [unfolded tp]]
  note q = Scan_count_nonzero [OF assms(1) [unfolded tq]]
  have le: "length paid \<le> length posted"
    unfolding paid_def posted_def by (rule length_filter_conj_le)
  have sp: "sint (TotalPaidBounties db r w) = int (length paid)"
    using p by (simp add: tp sint_of_nat_small)
  have sq: "sint (TotalBountiesPosted db r w) = int (length posted)"
    using q by (simp add: tq sint_of_nat_small)
  have "int (length paid) * 100 < 2 ^ 63"
    using assms(3) sp by simp
  then have fits: "length paid * 100 < 2 ^ 63"
    by simp
  note pc = int64_percentage [OF p(3) le q(2) fits]
  let ?v = "of_nat (length paid * 100 div length posted) :: 64 word"
  have conv: "uint_of_float64 impl (math_Round (float64_of_int (sint ?v))) = ?v"
    using pc(2,3) float64_roundtrip_int [of "int (length paid * 100 div length posted)" impl]
    by simp
  have res: "BountiesPaidPercentage impl db r w = Inr ?v"
    using assms(1,2) pc(1) conv
    by (simp add: BountiesPaidPercentage_def Let_def tp tq p(1) q(1))
  have "unat ?v = length paid * 100 div length posted"
    using pc(3) by (simp add: unat_of_nat)
  then have "uint ?v = int (length paid * 100 div length posted)"
    by (simp add: uint_nat)
  then have "uint ?v = sint (TotalPaidBounties db r w) * 100 div sint (TotalBountiesPosted db r w)"
    unfolding sp sq by (simp add: zdiv_int)
  with res show ?thesis by blast
qed

lemma BountiesPaidPercentage_total:
  "\<exists>v. BountiesPaidPercentage impl db r w = Inr v"
  by (simp add: BountiesPaidPercentage_def int64_div_def Let_def)

lemma BountiesPaidPercentage_zero:
  assumes "TotalBountiesPosted db r w = 0 \<or> TotalPaidBounties db r w = 0"
  shows "BountiesPaidPercentage impl db r w = Inr 0"
  using assms by (auto simp add: BountiesPaidPercentage_def Let_def)

text \<open>
  The claim as stated fails where the product \<open>paid * 100\<close> leaves the range of the
  64-bit type: with a single paid bounty of 200000000000000000 sats the posted and the
  paid total are both that amount and the percentage is 100, but the product wraps
  around and \<open>SatsPaidPercentage\<close> returns 7.
\<close>

theorem sats_paid_percentage_overflow_counterexample:
  "TotalSatsPosted db_C range_C [] = 200000000000000000
   \<and> TotalSatsPaid db_C range_C [] = 200000000000000000
   \<and> (200000000000000000 * 100) div 200000000000000000 = (100 :: nat)
   \<and> SatsPaidPercentage impl_A db_C range_C [] = Inr 7"
  by (simp add: SatsPaidPercentage_def TotalSatsPosted_def TotalSatsPaid_def db_C_def
      empty_db_def bounty_C_def range_C_def in_range_def Scan_sum_def uint_div_def
      math_Round_def float64_of_int_def float64_of_nat_def uint_of_float64_def Let_def)

text \<open>
  Claim C10, amended. For every store, date range and workspace filter,
  \<open>SatsPaidPercentage\<close> and \<open>BountiesPaidPercentage\<close> return a value and never divide by
  zero; whenever the posted total or the paid total is zero they return 0; otherwise,
  provided the product \<open>paid * 100\<close> stays within the 64-bit type it is computed in
  (unsigned for the sats, signed for the counts), they return the integer percentage
  \<open>(paid * 100) / posted\<close>.
\<close>

theorem paid_percentage_guarded:
  "(\<exists>v. SatsPaidPercentage impl db r w = Inr v)
   \<and> (\<exists>v. BountiesPaidPercentage impl db r w = Inr v)
   \<and> (TotalSatsPosted db r w = 0 \<or> TotalSatsPaid db r w = 0
        \<longrightarrow> SatsPaidPercentage impl db r w = Inr 0)
   \<and> (TotalBountiesPosted db r w = 0 \<or> TotalPaidBounties db r w = 0
        \<longrightarrow> BountiesPaidPercentage impl db r w = Inr 0)
   \<and> (TotalSatsPosted db r w \<noteq> 0 \<and> TotalSatsPaid db r w \<noteq> 0
        \<and> unat (TotalSatsPaid db r w) * 100 < 2 ^ 64
        \<longrightarrow> (\<exists>v. SatsPaidPercentage impl db r w = Inr v
              \<and> unat v = unat (TotalSatsPaid db r w) * 100 div unat (TotalSatsPosted db r w)))
   \<and> (TotalBountiesPosted db r w \<noteq> 0 \<and> TotalPaidBounties db r w \<noteq> 0
        \<and> sint (TotalPaidBounties db r w) * 100 < 2 ^ 63
        \<longrightarrow> (\<exists>v. BountiesPaidPercentage impl db r w = Inr v
              \<and> uint v = sint (TotalPaidBounties db r w) * 100
                          div sint (TotalBountiesPosted db r w)))"
proof (intro conjI impI)
  show "\<exists>v. SatsPaidPercentage impl db r w = Inr v"
    by (simp add: SatsPaidPercentage_eq)
  show "\<exists>v. BountiesPaidPercentage impl db r w = Inr v"
    by (rule BountiesPaidPercentage_total)
  show "SatsPaidPercentage impl db r w = Inr 0"
    if "TotalSatsPosted db r w = 0 \<or> TotalSatsPaid db r w = 0"
    using that by (auto simp add: SatsPaidPercentage_eq)
  show "BountiesPaidPercentage impl db r w = Inr 0"
    if "TotalBountiesPosted db r w = 0 \<or> TotalPaidBounties db r w = 0"
    using that by (rule BountiesPaidPercentage_zero)
  show "\<exists>v. SatsPaidPercentage impl db r w = Inr v
      \<and> unat v = unat (TotalSatsPaid db r w) * 100 div unat (TotalSatsPosted db r w)"
    if "TotalSatsPosted db r w \<noteq> 0 \<and> TotalSatsPaid db r w \<noteq> 0
        \<and> unat (TotalSatsPaid db r w) * 100 < 2 ^ 64"
    using that by (intro SatsPaidPercentage_exact) simp_all
  show "\<exists>v. BountiesPaidPercentage impl db r w = Inr v
      \<and> uint v = sint (TotalPaidBounties db r w) * 100 div sint (TotalBountiesPosted db r w)"
    if "TotalBountiesPosted db r w \<noteq> 0 \<and> TotalPaidBounties db r w \<noteq> 0
        \<and> sint (TotalPaidBounties db r w) * 100 < 2 ^ 63"
    using that by (intro BountiesPaidPercentage_exact) simp_all
qed

theorem paid_percentage_guarded_witness:
  "SatsPaidPercentage impl_A db_D range_C [] = Inr 33
   \<and> BountiesPaidPercentage impl_A db_D range_C [] = Inr 33
   \<and> SatsPaidPercentage impl_A empty_db range_C [] = Inr 0
   \<and> BountiesPaidPercentage impl_A empty_db range_C [] = Inr 0"
proof -
  have sats: "TotalSatsPosted db_D range_C [] = 15000" "TotalSatsPaid db_D range_C [] = 5000"
    by (simp_all add: TotalSatsPosted_def TotalSatsPaid_def db_D_def empty_db_def bounty_C_def
        range_C_def in_range_def Scan_sum_def Let_def)
  have counts: "TotalBountiesPosted db_D range_C [] = 3" "TotalPaidBounties db_D range_C [] = 1"
    by (simp_all add: TotalBountiesPosted_def TotalPaidBounties_def db_D_def empty_db_def
        bounty_C_def range_C_def in_range_def Scan_count_def)
  have none: "TotalSatsPosted empty_db range_C [] = 0" "TotalBountiesPosted empty_db range_C [] = 0"
    by (simp_all add: TotalSatsPosted_def TotalBountiesPosted_def empty_db_def Scan_sum_def
        Scan_count_def)
  note full = paid_percentage_guarded [of impl_A db_D range_C "[]"]
  note empty = paid_percentage_guarded [of impl_A empty_db range_C "[]"]
  from full sats obtain v where v: "SatsPaidPercentage impl_A db_D range_C [] = Inr v"
      "unat v = 33"
    by auto
  have "v = of_nat (unat v)"
    by simp
  with v(2) have "v = 33"
    by simp
  from full counts obtain c where c: "BountiesPaidPercentage impl_A db_D range_C [] = Inr c"
      "uint c = 33"
    by auto
  have "c = word_of_int (uint c)"
    by simp
  with c(2) have "c = 33"
    by simp
  from empty none have "SatsPaidPercentage impl_A empty_db range_C [] = Inr 0"
      "BountiesPaidPercentage impl_A empty_db range_C [] = Inr 0"
    by simp_all
  with v(1) c(1) \<open>v = 33\<close> \<open>c = 33\<close> show ?thesis
    by simp
qed

end
